theory Spec2Isabelle
  imports Complex_Main "HOL-Library.Log_Nat"
begin

section \<open>The C++ type double\<close>

text \<open>
  Every monetary quantity of the program is a C++ \<^verbatim>\<open>double\<close>, an IEEE 754 binary64
  number. A value is a finite number, one of the two infinities or a NaN. The finite
  values of the type are the multiples \<open>n * 2^(e - 52)\<close> with \<open>\<bar>n\<bar> < 2^53\<close> and
  \<open>-1022 \<le> e \<le> 1023\<close>; \<open>Fin x\<close> is meant for such an \<open>x\<close> only, and every operation
  below returns such values. The two zeros are one value: they compare equal, and the
  program never divides by a variable. All NaNs are one value. Equality in the theorems
  is identity of values, not the C++ operator \<^verbatim>\<open>==\<close>.
\<close>

datatype double = Fin real | PInf | NInf | NaN

text \<open>
  \<open>exponent a\<close> is the binary exponent of \<open>a > 0\<close>, that is \<open>\<lfloor>log\<^sub>2 a\<rfloor>\<close>, and
  \<open>roundEven\<close> rounds to the nearest integer, a tie going to the even one.
\<close>

definition exponent :: "real \<Rightarrow> int" where
  "exponent a = (if 1 \<le> a then bitlen \<lfloor>a\<rfloor> - 1 else - bitlen (\<lceil>1 / a\<rceil> - 1))"

definition roundEven :: "real \<Rightarrow> int" where
  "roundEven y =
     (let f = \<lfloor>y\<rfloor>; d = y - of_int f
      in if d < 1 / 2 then f else if 1 / 2 < d then f + 1 else if even f then f else f + 1)"

text \<open>
  \<open>rnd x\<close> is the double nearest to the real number \<open>x\<close>, in the default rounding mode
  (to nearest, ties to even): \<open>x\<close> is rounded to a multiple of the spacing \<open>2^(e - 52)\<close> of
  the doubles around it, where \<open>e\<close> is its exponent and at least \<open>-1022\<close> (below
  \<open>2^(-1022)\<close> the doubles are subnormal and evenly spaced); a result of magnitude
  \<open>2^1024\<close> or more is an overflow and gives an infinity. It is the value of a
  decimal literal of the source, the value \<^verbatim>\<open>std::cin >> amount\<close> stores for a decimal
  in range, and the result of every arithmetic operation on finite operands.
\<close>

definition rnd :: "real \<Rightarrow> double" where
  "rnd x =
     (if x = 0 then Fin 0
      else
        let e = max (exponent \<bar>x\<bar>) (- 1022);
            q = 2 powi (e - 52);
            y = of_int (roundEven (x / q)) * q
        in if 2 ^ 1024 \<le> \<bar>y\<bar> then (if 0 < x then PInf else NInf) else Fin y)"

text \<open>
  The number a finite double stands for, for a comparison with exact arithmetic; it is
  used on finite values only.
\<close>

fun val :: "double \<Rightarrow> real" where
  "val (Fin x) = x"
| "val PInf = 0"
| "val NInf = 0"
| "val NaN = 0"

fun isFinite :: "double \<Rightarrow> bool" where
  "isFinite (Fin x) = True"
| "isFinite PInf = False"
| "isFinite NInf = False"
| "isFinite NaN = False"

text \<open>
  The operators of the source on doubles: the exact result on finite operands, rounded,
  and the IEEE rules for infinities and NaN. A comparison with a NaN is false.
\<close>

instantiation double :: "{zero, uminus, plus, minus, times, divide, ord}"
begin

definition zero_double :: double where
  "zero_double = Fin 0"

fun uminus_double :: "double \<Rightarrow> double" where
  "uminus_double (Fin x) = Fin (- x)"
| "uminus_double PInf = NInf"
| "uminus_double NInf = PInf"
| "uminus_double NaN = NaN"

fun plus_double :: "double \<Rightarrow> double \<Rightarrow> double" where
  "plus_double (Fin x) (Fin y) = rnd (x + y)"
| "plus_double NaN y = NaN"
| "plus_double x NaN = NaN"
| "plus_double PInf NInf = NaN"
| "plus_double NInf PInf = NaN"
| "plus_double PInf y = PInf"
| "plus_double x PInf = PInf"
| "plus_double NInf y = NInf"
| "plus_double x NInf = NInf"

definition minus_double :: "double \<Rightarrow> double \<Rightarrow> double" where
  "minus_double x y = x + (- y)"

fun times_double :: "double \<Rightarrow> double \<Rightarrow> double" where
  "times_double (Fin x) (Fin y) = rnd (x * y)"
| "times_double NaN y = NaN"
| "times_double x NaN = NaN"
| "times_double PInf PInf = PInf"
| "times_double PInf NInf = NInf"
| "times_double NInf PInf = NInf"
| "times_double NInf NInf = PInf"
| "times_double PInf (Fin y) = (if y = 0 then NaN else if 0 < y then PInf else NInf)"
| "times_double NInf (Fin y) = (if y = 0 then NaN else if 0 < y then NInf else PInf)"
| "times_double (Fin x) PInf = (if x = 0 then NaN else if 0 < x then PInf else NInf)"
| "times_double (Fin x) NInf = (if x = 0 then NaN else if 0 < x then NInf else PInf)"

text \<open>A zero divisor is taken as \<open>+0\<close>; the program divides by the constant 12 only.\<close>

fun divide_double :: "double \<Rightarrow> double \<Rightarrow> double" where
  "divide_double (Fin x) (Fin y) =
     (if y = 0 then (if x = 0 then NaN else if 0 < x then PInf else NInf) else rnd (x / y))"
| "divide_double NaN y = NaN"
| "divide_double x NaN = NaN"
| "divide_double PInf PInf = NaN"
| "divide_double PInf NInf = NaN"
| "divide_double NInf PInf = NaN"
| "divide_double NInf NInf = NaN"
| "divide_double PInf (Fin y) = (if 0 \<le> y then PInf else NInf)"
| "divide_double NInf (Fin y) = (if 0 \<le> y then NInf else PInf)"
| "divide_double (Fin x) PInf = Fin 0"
| "divide_double (Fin x) NInf = Fin 0"

fun less_double :: "double \<Rightarrow> double \<Rightarrow> bool" where
  "less_double (Fin x) (Fin y) = (x < y)"
| "less_double NInf (Fin y) = True"
| "less_double NInf PInf = True"
| "less_double (Fin x) PInf = True"
| "less_double x y = False"

fun less_eq_double :: "double \<Rightarrow> double \<Rightarrow> bool" where
  "less_eq_double (Fin x) (Fin y) = (x \<le> y)"
| "less_eq_double NInf (Fin y) = True"
| "less_eq_double NInf PInf = True"
| "less_eq_double NInf NInf = True"
| "less_eq_double (Fin x) PInf = True"
| "less_eq_double PInf PInf = True"
| "less_eq_double x y = False"

instance ..

end

instantiation double :: inverse
begin

definition inverse_double :: "double \<Rightarrow> double" where
  "inverse_double x = divide (Fin 1) x"

instance ..

end

section \<open>Data model of banking\_system.cpp\<close>

text \<open>
  A \<^verbatim>\<open>Transaction\<close> also stores the wall-clock time of its creation, which is read
  from \<^verbatim>\<open>time(0)\<close>; the timestamp takes no part in any computation and is left out.
  The \<^verbatim>\<open>type\<close> of a transaction is the string the source stores.
\<close>

record Transaction =
  type :: string
  amount :: double
  balanceAfter :: double

text \<open>The constructor \<^verbatim>\<open>Transaction(t, amt, balance)\<close>.\<close>

definition Transaction_new :: "string \<Rightarrow> double \<Rightarrow> double \<Rightarrow> Transaction" where
  "Transaction_new t amt bal = \<lparr>type = t, amount = amt, balanceAfter = bal\<rparr>"

text \<open>
  The abstract base class \<^verbatim>\<open>Account\<close> and its two derived classes are a record and
  its two extensions; a function on the base class works on \<open>'a Account_scheme\<close>.
\<close>

record Account =
  accountNumber :: string
  holderName :: string
  balance :: double
  transactionHistory :: "Transaction list"

record SavingsAccount = Account +
  interestRate :: double
  minimumBalance :: double

record CurrentAccount = Account +
  overdraftLimit :: double
  overdraftFee :: double

text \<open>
  What a method writes to \<^verbatim>\<open>std::cout\<close> is the list of the items it inserts into the
  stream, in order. The formatting manipulators (\<^verbatim>\<open>std::fixed\<close>,
  \<^verbatim>\<open>std::setprecision\<close>) only change how a number is printed and are left out.
\<close>

datatype cout = Str string | Dbl double | Endl

section \<open>Account\<close>

text \<open>
  The constructor of the base class: the balance is the initial balance, and an
  \<^verbatim>\<open>"Initial Deposit"\<close> transaction is recorded when \<^verbatim>\<open>initialBalance > 0\<close>.
\<close>

definition Account_new :: "string \<Rightarrow> string \<Rightarrow> double \<Rightarrow> Account" where
  "Account_new accNum name initialBalance =
     (let a = \<lparr>accountNumber = accNum, holderName = name, balance = initialBalance,
                transactionHistory = []\<rparr>
      in if initialBalance > 0
         then a\<lparr>transactionHistory :=
                  transactionHistory a @ [Transaction_new ''Initial Deposit'' initialBalance (balance a)]\<rparr>
         else a)"

definition addTransaction :: "string \<Rightarrow> double \<Rightarrow> 'a Account_scheme \<Rightarrow> 'a Account_scheme" where
  "addTransaction t amt a =
     a\<lparr>transactionHistory := transactionHistory a @ [Transaction_new t amt (balance a)]\<rparr>"

section \<open>SavingsAccount\<close>

definition SavingsAccount_new ::
  "string \<Rightarrow> string \<Rightarrow> double \<Rightarrow> double \<Rightarrow> double \<Rightarrow> SavingsAccount" where
  "SavingsAccount_new accNum name initialBalance intRate minBalance =
     Account.extend (Account_new accNum name initialBalance)
       (SavingsAccount.fields intRate minBalance)"

text \<open>\<^verbatim>\<open>void deposit(double amount)\<close>: the new state and the output.\<close>

definition SavingsAccount_deposit :: "double \<Rightarrow> SavingsAccount \<Rightarrow> SavingsAccount \<times> cout list" where
  "SavingsAccount_deposit amt a =
     (if amt \<le> 0 then (a, [Str ''Invalid deposit amount!'', Endl])
      else
        let a1 = a\<lparr>balance := balance a + amt\<rparr>;
            a2 = addTransaction ''Deposit'' amt a1
        in (a2, [Str ''Deposited $'', Dbl amt, Str ''. New balance: $'', Dbl (balance a2), Endl]))"

text \<open>\<^verbatim>\<open>bool withdraw(double amount)\<close>: the returned flag, the new state and the output.\<close>

definition SavingsAccount_withdraw ::
  "double \<Rightarrow> SavingsAccount \<Rightarrow> bool \<times> SavingsAccount \<times> cout list" where
  "SavingsAccount_withdraw amt a =
     (if amt \<le> 0 then (False, a, [Str ''Invalid withdrawal amount!'', Endl])
      else if balance a - amt < minimumBalance a
      then (False, a, [Str ''Withdrawal failed! Minimum balance of $'', Dbl (minimumBalance a),
                       Str '' must be maintained.'', Endl])
      else
        let a1 = a\<lparr>balance := balance a - amt\<rparr>;
            a2 = addTransaction ''Withdrawal'' amt a1
        in (True, a2, [Str ''Withdrew $'', Dbl amt, Str ''. New balance: $'', Dbl (balance a2), Endl]))"

definition SavingsAccount_applyInterest :: "SavingsAccount \<Rightarrow> SavingsAccount \<times> cout list" where
  "SavingsAccount_applyInterest a =
     (let interest = balance a * interestRate a / rnd 12;
          a1 = a\<lparr>balance := balance a + interest\<rparr>;
          a2 = addTransaction ''Interest Credit'' interest a1
      in (a2, [Str ''Interest of $'', Dbl interest, Str '' applied. New balance: $'',
               Dbl (balance a2), Endl]))"

section \<open>CurrentAccount\<close>

definition CurrentAccount_new ::
  "string \<Rightarrow> string \<Rightarrow> double \<Rightarrow> double \<Rightarrow> double \<Rightarrow> CurrentAccount" where
  "CurrentAccount_new accNum name initialBalance overdraftLim overdraftF =
     Account.extend (Account_new accNum name initialBalance)
       (CurrentAccount.fields overdraftLim overdraftF)"

definition CurrentAccount_deposit :: "double \<Rightarrow> CurrentAccount \<Rightarrow> CurrentAccount \<times> cout list" where
  "CurrentAccount_deposit amt a =
     (if amt \<le> 0 then (a, [Str ''Invalid deposit amount!'', Endl])
      else
        let a1 = a\<lparr>balance := balance a + amt\<rparr>;
            a2 = addTransaction ''Deposit'' amt a1
        in (a2, [Str ''Deposited $'', Dbl amt, Str ''. New balance: $'', Dbl (balance a2), Endl]))"

text \<open>
  The overdraft fee is charged after the withdrawal has been recorded, when the balance
  has become negative; nothing compares the balance with the limit again.
\<close>

definition CurrentAccount_withdraw ::
  "double \<Rightarrow> CurrentAccount \<Rightarrow> bool \<times> CurrentAccount \<times> cout list" where
  "CurrentAccount_withdraw amt a =
     (if amt \<le> 0 then (False, a, [Str ''Invalid withdrawal amount!'', Endl])
      else if balance a - amt < - overdraftLimit a
      then (False, a, [Str ''Withdrawal failed! Overdraft limit of $'', Dbl (overdraftLimit a),
                       Str '' exceeded.'', Endl])
      else
        let a1 = a\<lparr>balance := balance a - amt\<rparr>;
            a2 = addTransaction ''Withdrawal'' amt a1;
            (a3, out) =
              (if balance a2 < 0
               then (addTransaction ''Overdraft Fee'' (overdraftFee a2)
                       (a2\<lparr>balance := balance a2 - overdraftFee a2\<rparr>),
                     [Str ''Overdraft fee of $'', Dbl (overdraftFee a2), Str '' applied.'', Endl])
               else (a2, []))
        in (True, a3,
            out @ [Str ''Withdrew $'', Dbl amt, Str ''. New balance: $'', Dbl (balance a3), Endl]))"

section \<open>Bank\<close>

text \<open>
  The bank owns a vector of \<^verbatim>\<open>unique_ptr<Account>\<close>; the dynamic type of each element
  is one of the two derived classes. A virtual call dispatches on the constructor, and
  the \<^verbatim>\<open>dynamic_cast<SavingsAccount*>\<close> of the interest run is a case distinction.
\<close>

datatype AccountPtr = Savings SavingsAccount | Current CurrentAccount

record Bank =
  accounts :: "AccountPtr list"
  bankName :: string

definition Bank_new :: "string \<Rightarrow> Bank" where
  "Bank_new name = \<lparr>accounts = [], bankName = name\<rparr>"

fun getAccountNumber :: "AccountPtr \<Rightarrow> string" where
  "getAccountNumber (Savings s) = accountNumber s"
| "getAccountNumber (Current c) = accountNumber c"

fun getBalance :: "AccountPtr \<Rightarrow> double" where
  "getBalance (Savings s) = balance s"
| "getBalance (Current c) = balance c"

text \<open>The transaction history that \<^verbatim>\<open>displayTransactionHistory\<close> iterates over.\<close>

fun getTransactionHistory :: "AccountPtr \<Rightarrow> Transaction list" where
  "getTransactionHistory (Savings s) = transactionHistory s"
| "getTransactionHistory (Current c) = transactionHistory c"

fun deposit :: "double \<Rightarrow> AccountPtr \<Rightarrow> AccountPtr \<times> cout list" where
  "deposit amt (Savings s) = (let (s', out) = SavingsAccount_deposit amt s in (Savings s', out))"
| "deposit amt (Current c) = (let (c', out) = CurrentAccount_deposit amt c in (Current c', out))"

fun withdraw :: "double \<Rightarrow> AccountPtr \<Rightarrow> bool \<times> AccountPtr \<times> cout list" where
  "withdraw amt (Savings s) =
     (let (ok, s', out) = SavingsAccount_withdraw amt s in (ok, Savings s', out))"
| "withdraw amt (Current c) =
     (let (ok, c', out) = CurrentAccount_withdraw amt c in (ok, Current c', out))"

text \<open>
  The default arguments of the two derived constructors, which are the values every
  account of a bank gets: an interest rate of 0.04 and a minimum balance of 100, an
  overdraft limit of 1000 and an overdraft fee of 25.
\<close>

definition intRate_default :: double where
  "intRate_default = rnd 0.04"

definition minBalance_default :: double where
  "minBalance_default = rnd 100"

definition overdraftLim_default :: double where
  "overdraftLim_default = rnd 1000"

definition overdraftF_default :: double where
  "overdraftF_default = rnd 25"

definition createSavingsAccount :: "string \<Rightarrow> string \<Rightarrow> double \<Rightarrow> Bank \<Rightarrow> Bank \<times> cout list" where
  "createSavingsAccount accNum holder initialBalance bank =
     (bank\<lparr>accounts := accounts bank @
               [Savings (SavingsAccount_new accNum holder initialBalance intRate_default minBalance_default)]\<rparr>,
      [Str ''Savings account created successfully!'', Endl])"

definition createCurrentAccount :: "string \<Rightarrow> string \<Rightarrow> double \<Rightarrow> Bank \<Rightarrow> Bank \<times> cout list" where
  "createCurrentAccount accNum holder initialBalance bank =
     (bank\<lparr>accounts := accounts bank @
               [Current (CurrentAccount_new accNum holder initialBalance overdraftLim_default overdraftF_default)]\<rparr>,
      [Str ''Current account created successfully!'', Endl])"

text \<open>
  \<^verbatim>\<open>std::find_if\<close> returns the position of the first element that satisfies the
  predicate, and the end of the range (here its length) when there is none.
\<close>

fun find_if :: "('a \<Rightarrow> bool) \<Rightarrow> 'a list \<Rightarrow> nat" where
  "find_if p [] = 0"
| "find_if p (x # xs) = (if p x then 0 else Suc (find_if p xs))"

text \<open>
  The pointer that \<^verbatim>\<open>findAccount\<close> returns is the position of the account in the
  vector; \<open>None\<close> is the null pointer.
\<close>

definition findAccount :: "string \<Rightarrow> Bank \<Rightarrow> nat option" where
  "findAccount accNum bank =
     (let it = find_if (\<lambda>acc. getAccountNumber acc = accNum) (accounts bank)
      in if it \<noteq> length (accounts bank) then Some it else None)"

text \<open>The loop of \<^verbatim>\<open>applyInterestToSavingsAccounts\<close> over the vector, in order.\<close>

fun applyInterest_each :: "AccountPtr list \<Rightarrow> AccountPtr list \<times> cout list" where
  "applyInterest_each [] = ([], [])"
| "applyInterest_each (Savings s # rest) =
     (let (s', out) = SavingsAccount_applyInterest s;
          (rest', outs) = applyInterest_each rest
      in (Savings s' # rest', [Str ''Account '', Str (accountNumber s), Str '': ''] @ out @ outs))"
| "applyInterest_each (Current c # rest) =
     (let (rest', outs) = applyInterest_each rest in (Current c # rest', outs))"

definition applyInterestToSavingsAccounts :: "Bank \<Rightarrow> Bank \<times> cout list" where
  "applyInterestToSavingsAccounts bank =
     (let (accs, outs) = applyInterest_each (accounts bank)
      in (bank\<lparr>accounts := accs\<rparr>,
          [Str (CHR 0x0A # ''=== Applying Monthly Interest ===''), Endl] @ outs))"

section \<open>Sequences of operations\<close>

text \<open>
  The operations that change an account after its creation. \<open>perform\<close> makes the
  virtual call of the operation and keeps the new state; interest is applied to savings
  accounts only, as the bank's interest run does.
\<close>

datatype operation = Deposit double | Withdraw double | ApplyInterest

fun perform :: "operation \<Rightarrow> AccountPtr \<Rightarrow> AccountPtr" where
  "perform (Deposit amt) acc = fst (deposit amt acc)"
| "perform (Withdraw amt) acc = fst (snd (withdraw amt acc))"
| "perform ApplyInterest (Savings s) = Savings (fst (SavingsAccount_applyInterest s))"
| "perform ApplyInterest (Current c) = Current c"

definition performAll :: "operation list \<Rightarrow> AccountPtr \<Rightarrow> AccountPtr" where
  "performAll ops acc = fold perform ops acc"

text \<open>
  The calls that the menu cases 1, 2, 3, 4 and 9 of \<^verbatim>\<open>BankingSystem::run\<close> make on the
  bank, as a function of the values read from the input; prompts and the parsing of the
  input are left out, and only the new state of the bank is kept. The other cases
  change nothing. A deposit or withdrawal goes to the account \<^verbatim>\<open>findAccount\<close> points
  to, and does nothing when the pointer is null.
\<close>

datatype request =
    CreateSavings string string double
  | CreateCurrent string string double
  | DepositMoney string double
  | WithdrawMoney string double
  | ApplyInterestToSavings

fun serve :: "request \<Rightarrow> Bank \<Rightarrow> Bank" where
  "serve (CreateSavings accNum holder amt) bank = fst (createSavingsAccount accNum holder amt bank)"
| "serve (CreateCurrent accNum holder amt) bank = fst (createCurrentAccount accNum holder amt bank)"
| "serve (DepositMoney accNum amt) bank =
     (case findAccount accNum bank of
        Some i \<Rightarrow> bank\<lparr>accounts := (accounts bank)[i := fst (deposit amt (accounts bank ! i))]\<rparr>
      | None \<Rightarrow> bank)"
| "serve (WithdrawMoney accNum amt) bank =
     (case findAccount accNum bank of
        Some i \<Rightarrow> bank\<lparr>accounts := (accounts bank)[i := fst (snd (withdraw amt (accounts bank ! i)))]\<rparr>
      | None \<Rightarrow> bank)"
| "serve ApplyInterestToSavings bank = fst (applyInterestToSavingsAccounts bank)"

definition serveAll :: "request list \<Rightarrow> Bank \<Rightarrow> Bank" where
  "serveAll reqs bank = fold serve reqs bank"

section \<open>Replaying a transaction history\<close>

text \<open>
  The effect of a recorded transaction on a balance, as the account sees it: deposits,
  the initial deposit and interest credits are added, withdrawals and overdraft fees are
  subtracted, in the arithmetic of doubles. \<open>replay b ts\<close> applies the transactions
  \<open>ts\<close> to the balance \<open>b\<close> one after the other, in the order of the history.
\<close>

definition applySigned :: "double \<Rightarrow> Transaction \<Rightarrow> double" where
  "applySigned b t =
     (if type t \<in> {''Deposit'', ''Initial Deposit'', ''Interest Credit''} then b + amount t
      else if type t \<in> {''Withdrawal'', ''Overdraft Fee''} then b - amount t
      else b)"

definition replay :: "double \<Rightarrow> Transaction list \<Rightarrow> double" where
  "replay b ts = foldl applySigned b ts"

text \<open>The transactions recorded by an operation, that is all but the initial deposit.\<close>

definition afterOpening :: "Transaction list \<Rightarrow> Transaction list" where
  "afterOpening ts = filter (\<lambda>t. type t \<noteq> ''Initial Deposit'') ts"

text \<open>
  The sum the specification speaks of, in exact arithmetic: the amount of a deposit, an
  initial deposit or an interest credit counts positive, that of a withdrawal or an
  overdraft fee negative.
\<close>

definition signedAmount :: "Transaction \<Rightarrow> real" where
  "signedAmount t =
     (if type t \<in> {''Deposit'', ''Initial Deposit'', ''Interest Credit''} then val (amount t)
      else if type t \<in> {''Withdrawal'', ''Overdraft Fee''} then - val (amount t)
      else 0)"

definition signedSum :: "Transaction list \<Rightarrow> real" where
  "signedSum ts = sum_list (map signedAmount ts)"

section \<open>Properties of a transaction history\<close>

text \<open>
  \<open>balancesRecorded B ts\<close>: each transaction of the history \<open>ts\<close> of an account opened
  with the initial balance \<open>B\<close> holds, as its \<^verbatim>\<open>balanceAfter\<close>, the balance the account
  had when the history ended with this transaction: the initial balance with the
  operations recorded up to and including it applied, in the arithmetic of doubles.
\<close>

definition balancesRecorded :: "double \<Rightarrow> Transaction list \<Rightarrow> bool" where
  "balancesRecorded B ts \<longleftrightarrow>
     (\<forall>i \<in> {..<length ts}.
        balanceAfter (ts ! i) = replay B (afterOpening (take (Suc i) ts)))"

definition nonNegativeAmounts :: "Transaction list \<Rightarrow> bool" where
  "nonNegativeAmounts ts \<longleftrightarrow> (\<forall>t \<in> set ts. 0 \<le> amount t)"

text \<open>The amounts an operation sequence passes to \<^verbatim>\<open>deposit\<close> and \<^verbatim>\<open>withdraw\<close>.\<close>

fun amountOf :: "operation \<Rightarrow> double option" where
  "amountOf (Deposit amt) = Some amt"
| "amountOf (Withdraw amt) = Some amt"
| "amountOf ApplyInterest = None"

definition finiteAmounts :: "operation list \<Rightarrow> bool" where
  "finiteAmounts ops \<longleftrightarrow> (\<forall>op \<in> set ops. case amountOf op of Some amt \<Rightarrow> isFinite amt | None \<Rightarrow> True)"

text \<open>
  The invariants behind non-negative amounts: a savings account whose balance and minimum
  balance are not negative and whose interest rate is positive and finite, and a current
  account whose overdraft fee is not negative.
\<close>

definition soundSavings :: "AccountPtr \<Rightarrow> bool" where
  "soundSavings acc \<longleftrightarrow>
     (case acc of
        Savings s \<Rightarrow> 0 \<le> balance s \<and> 0 < interestRate s \<and> isFinite (interestRate s) \<and>
                     0 \<le> minimumBalance s \<and> nonNegativeAmounts (transactionHistory s)
      | Current c \<Rightarrow> False)"

definition soundCurrent :: "AccountPtr \<Rightarrow> bool" where
  "soundCurrent acc \<longleftrightarrow>
     (case acc of
        Savings s \<Rightarrow> False
      | Current c \<Rightarrow> 0 \<le> overdraftFee c \<and> nonNegativeAmounts (transactionHistory c))"

section \<open>A bank for the examples\<close>

text \<open>
  Three accounts created through the menu, two of them with the same account number.
\<close>

definition exampleBank :: Bank where
  "exampleBank =
     serveAll [CreateSavings ''S1'' ''Alice'' (rnd 1000), CreateCurrent ''C1'' ''Bob'' 0,
               CreateSavings ''S1'' ''Eve'' (rnd 50)] (Bank_new ''ABC Bank'')"

section \<open>The accounts of a bank\<close>

text \<open>
  An account as a bank makes it: opened by one of the two creation methods, with the
  default arguments, and then changed by operations.
\<close>

inductive bankAccount :: "AccountPtr \<Rightarrow> bool" where
  openedSavings: "bankAccount (Savings (SavingsAccount_new accNum holder B intRate_default minBalance_default))"
| openedCurrent: "bankAccount (Current (CurrentAccount_new accNum holder B overdraftLim_default overdraftF_default))"
| changed: "bankAccount acc \<Longrightarrow> bankAccount (perform op acc)"

section \<open>Facts about doubles\<close>

lemmas rnd_eval = rnd_def exponent_def roundEven_def Let_def bitlen_def compute_floorlog

text \<open>The rounding is to a nearest integer, and the exponent is the binary logarithm.\<close>

lemma roundEven_nearest: "\<bar>of_int (roundEven y) - y\<bar> \<le> 1 / 2"
proof -
  have "of_int \<lfloor>y\<rfloor> \<le> y" and "y < of_int \<lfloor>y\<rfloor> + 1"
    by linarith+
  then show ?thesis
    by (auto simp add: roundEven_def Let_def)
qed

lemma roundEven_nonneg: "0 \<le> y \<Longrightarrow> 0 \<le> roundEven y"
proof -
  assume "0 \<le> y"
  then have "0 \<le> \<lfloor>y\<rfloor>" by simp
  then show ?thesis
    by (auto simp add: roundEven_def Let_def)
qed

lemma exponent_bounds:
  assumes "0 < a"
  shows "2 powi (exponent a) \<le> a \<and> a < 2 powi (exponent a + 1)"
proof (cases "1 \<le> a")
  case True
  define n where "n = \<lfloor>a\<rfloor>"
  have n: "0 < n" "of_int n \<le> a" "a < of_int n + 1"
    using True by (simp_all add: n_def)
  from bitlen_bounds [OF n(1)]
  have lo: "(2::int) ^ nat (bitlen n - 1) \<le> n" and hi: "n + 1 \<le> 2 ^ nat (bitlen n)"
    by simp_all
  have pos: "0 < bitlen n"
    using n(1) bitlen_nonneg [of n] bitlen_eq_zero_iff [of n] by linarith
  have e: "exponent a = bitlen n - 1"
    using True by (simp add: exponent_def n_def)
  from lo have "real_of_int (2 ^ nat (bitlen n - 1)) \<le> real_of_int n"
    by (rule of_int_le_iff [THEN iffD2])
  then have lo': "(2::real) ^ nat (bitlen n - 1) \<le> real_of_int n" by simp
  from hi have "real_of_int (n + 1) \<le> real_of_int (2 ^ nat (bitlen n))"
    by (rule of_int_le_iff [THEN iffD2])
  then have hi': "real_of_int n + 1 \<le> (2::real) ^ nat (bitlen n)" by simp
  have p1: "(2::real) powi (bitlen n - 1) = 2 ^ nat (bitlen n - 1)"
    using pos by (simp add: power_int_def)
  have p2: "(2::real) powi (bitlen n - 1 + 1) = 2 ^ nat (bitlen n)"
    using pos by (simp add: power_int_def)
  show ?thesis
    unfolding e p1 p2 using lo' hi' n(2) n(3) by linarith
next
  case False
  define c where "c = \<lceil>1 / a\<rceil>"
  have inv: "1 < 1 / a" using assms False by simp
  have c: "1 / a \<le> of_int c" "of_int c - 1 < 1 / a"
    unfolding c_def by linarith+
  have c1: "0 < c - 1" using inv c(1) by linarith
  define k where "k = bitlen (c - 1)"
  from bitlen_bounds [OF c1]
  have lo: "(2::int) ^ nat (k - 1) \<le> c - 1" and hi: "c \<le> 2 ^ nat k"
    by (simp_all add: k_def)
  have pos: "0 < k"
    using c1 bitlen_nonneg [of "c - 1"] bitlen_eq_zero_iff [of "c - 1"] unfolding k_def by linarith
  have e: "exponent a = - k"
    using False by (simp add: exponent_def c_def k_def)
  from hi have "real_of_int c \<le> real_of_int (2 ^ nat k)"
    by (rule of_int_le_iff [THEN iffD2])
  then have "real_of_int c \<le> 2 ^ nat k" by simp
  with c(1) have up: "1 / a \<le> 2 ^ nat k" by linarith
  from lo have "real_of_int (2 ^ nat (k - 1)) \<le> real_of_int (c - 1)"
    by (rule of_int_le_iff [THEN iffD2])
  then have "(2::real) ^ nat (k - 1) \<le> real_of_int c - 1" by simp
  with c(2) have dn: "2 ^ nat (k - 1) < 1 / a" by linarith
  have p1: "(2::real) powi (- k) = 1 / 2 ^ nat k"
    using pos by (simp add: power_int_def field_simps)
  have p2: "(2::real) powi (- k + 1) = 1 / 2 ^ nat (k - 1)"
  proof -
    have "- k + 1 = - (k - 1)" by simp
    moreover have "(2::real) powi (- (k - 1)) = 1 / 2 ^ nat (k - 1)"
      using pos by (simp add: power_int_def field_simps)
    ultimately show ?thesis by simp
  qed
  have pk: "(0::real) < 2 ^ nat k" and pk1: "(0::real) < 2 ^ nat (k - 1)" by simp_all
  have 1: "1 / 2 ^ nat k \<le> a"
  proof -
    from up assms have "1 \<le> a * 2 ^ nat k" by (simp add: field_simps)
    then show ?thesis using pk by (simp add: field_simps)
  qed
  have 2: "a < 1 / 2 ^ nat (k - 1)"
  proof -
    from dn assms have "a * 2 ^ nat (k - 1) < 1" by (simp add: field_simps)
    then show ?thesis using pk1 by (simp add: field_simps)
  qed
  show ?thesis unfolding e p1 p2 using 1 2 by simp
qed

lemma rnd_not_NaN [simp]: "rnd x \<noteq> NaN"
  by (simp add: rnd_def Let_def)

lemma rnd_nonneg:
  assumes "0 \<le> x"
  shows "Fin 0 \<le> rnd x"
proof (cases "x = 0")
  case True
  then show ?thesis by (simp add: rnd_def)
next
  case False
  with assms have pos: "0 < x" by simp
  define q :: real where "q = 2 powi (max (exponent \<bar>x\<bar>) (- 1022) - 52)"
  have q: "0 < q" by (simp add: q_def)
  have "0 \<le> x / q" using pos q by simp
  then have "0 \<le> roundEven (x / q)" by (rule roundEven_nonneg)
  then have "0 \<le> real_of_int (roundEven (x / q)) * q" using q by simp
  then show ?thesis
    using pos by (simp add: rnd_def Let_def q_def)
qed

lemma rnd_constants:
  "rnd 12 = Fin 12"
  "rnd 25 = Fin 25"
  "rnd 50 = Fin 50"
  "rnd 100 = Fin 100"
  "rnd 1000 = Fin 1000"
  "rnd 0.04 = Fin (5764607523034235 / 2 ^ 57)"
  by (simp_all add: rnd_eval)

lemma default_values:
  "intRate_default = Fin (5764607523034235 / 2 ^ 57)"
  "minBalance_default = Fin 100"
  "overdraftLim_default = Fin 1000"
  "overdraftF_default = Fin 25"
  by (simp_all add: intRate_default_def minBalance_default_def overdraftLim_default_def
        overdraftF_default_def rnd_eval)

text \<open>Comparisons: without a NaN, the order is total.\<close>

lemma not_less_double: "x \<noteq> NaN \<Longrightarrow> y \<noteq> NaN \<Longrightarrow> \<not> x < y \<longleftrightarrow> y \<le> x"
  by (cases x; cases y) auto

lemma less_imp_not_le_double: "(x::double) < y \<Longrightarrow> \<not> y \<le> x"
  by (cases x; cases y) auto

lemma not_le_zero_double: "\<not> (x::double) \<le> 0 \<longleftrightarrow> 0 < x \<or> x = NaN"
  by (cases x) (auto simp add: zero_double_def)

lemma le_trans_double: "(x::double) \<le> y \<Longrightarrow> y \<le> z \<Longrightarrow> x \<le> z"
  by (cases x; cases y; cases z) auto

lemma nonneg_cases: "(0::double) \<le> x \<longleftrightarrow> (\<exists>r. x = Fin r \<and> 0 \<le> r) \<or> x = PInf"
  by (cases x) (auto simp add: zero_double_def)

lemma nonneg_add: "(0::double) \<le> x \<Longrightarrow> 0 \<le> y \<Longrightarrow> 0 \<le> x + y"
  by (cases x; cases y) (simp_all add: zero_double_def rnd_nonneg)

lemma nonneg_mult_finite: "(0::double) \<le> x \<Longrightarrow> 0 < r \<Longrightarrow> isFinite r \<Longrightarrow> 0 \<le> x * r"
  by (cases x; cases r) (simp_all add: zero_double_def rnd_nonneg)

lemma nonneg_div_12: "(0::double) \<le> x \<Longrightarrow> 0 \<le> x / rnd 12"
  by (cases x) (simp_all add: zero_double_def rnd_nonneg rnd_constants)

section \<open>Auxiliary facts\<close>

lemma SavingsAccount_new_sel:
  "accountNumber (SavingsAccount_new n h B r m) = n"
  "holderName (SavingsAccount_new n h B r m) = h"
  "balance (SavingsAccount_new n h B r m) = B"
  "transactionHistory (SavingsAccount_new n h B r m) =
     (if 0 < B then [\<lparr>type = ''Initial Deposit'', amount = B, balanceAfter = B\<rparr>] else [])"
  "interestRate (SavingsAccount_new n h B r m) = r"
  "minimumBalance (SavingsAccount_new n h B r m) = m"
  by (simp_all add: SavingsAccount_new_def Account_new_def Transaction_new_def Let_def
        Account.defs SavingsAccount.defs)

lemma CurrentAccount_new_sel:
  "accountNumber (CurrentAccount_new n h B l f) = n"
  "holderName (CurrentAccount_new n h B l f) = h"
  "balance (CurrentAccount_new n h B l f) = B"
  "transactionHistory (CurrentAccount_new n h B l f) =
     (if 0 < B then [\<lparr>type = ''Initial Deposit'', amount = B, balanceAfter = B\<rparr>] else [])"
  "overdraftLimit (CurrentAccount_new n h B l f) = l"
  "overdraftFee (CurrentAccount_new n h B l f) = f"
  by (simp_all add: CurrentAccount_new_def Account_new_def Transaction_new_def Let_def
        Account.defs CurrentAccount.defs)

text \<open>The two constructors as record expressions, for evaluation on concrete accounts.\<close>

lemma SavingsAccount_new_eq:
  "SavingsAccount_new n h B r m =
     \<lparr>accountNumber = n, holderName = h, balance = B,
      transactionHistory =
        (if 0 < B then [\<lparr>type = ''Initial Deposit'', amount = B, balanceAfter = B\<rparr>] else []),
      interestRate = r, minimumBalance = m\<rparr>"
  by (simp add: SavingsAccount_new_def Account_new_def Transaction_new_def Let_def
        Account.defs SavingsAccount.defs)

lemma CurrentAccount_new_eq:
  "CurrentAccount_new n h B l f =
     \<lparr>accountNumber = n, holderName = h, balance = B,
      transactionHistory =
        (if 0 < B then [\<lparr>type = ''Initial Deposit'', amount = B, balanceAfter = B\<rparr>] else []),
      overdraftLimit = l, overdraftFee = f\<rparr>"
  by (simp add: CurrentAccount_new_def Account_new_def Transaction_new_def Let_def
        Account.defs CurrentAccount.defs)

lemmas operation_defs =
  SavingsAccount_deposit_def SavingsAccount_withdraw_def SavingsAccount_applyInterest_def
  CurrentAccount_deposit_def CurrentAccount_withdraw_def addTransaction_def Transaction_new_def

section \<open>Withdrawal from a savings account\<close>

text \<open>
  Claim C2, as the code has it. The code takes the difference \<open>b - amount\<close> in the
  arithmetic of doubles, so it is the double nearest to the exact difference that is
  compared with the minimum balance \<open>m\<close>. A withdrawal of a positive amount is accepted
  exactly when this difference is not less than \<open>m\<close>: when it is at least \<open>m\<close>, or when
  it or \<open>m\<close> is a NaN. When the withdrawal is accepted, \<^verbatim>\<open>withdraw\<close> returns true, the
  balance becomes that difference, one \<^verbatim>\<open>"Withdrawal"\<close> transaction is appended and
  nothing else changes. When it is rejected, because the amount is not positive or the
  difference is less than \<open>m\<close>, it returns false and the account is as it was.
\<close>

theorem SavingsAccount_withdraw_minimum_balance:
  "(0 < amt \<longrightarrow>
      (fst (SavingsAccount_withdraw amt a) \<longleftrightarrow> \<not> balance a - amt < minimumBalance a)) \<and>
   (0 < amt \<and> \<not> balance a - amt < minimumBalance a \<longrightarrow>
      fst (SavingsAccount_withdraw amt a) = True \<and>
      fst (snd (SavingsAccount_withdraw amt a)) =
        a\<lparr>balance := balance a - amt,
          transactionHistory := transactionHistory a @
            [\<lparr>type = ''Withdrawal'', amount = amt, balanceAfter = balance a - amt\<rparr>]\<rparr>) \<and>
   (amt \<le> 0 \<or> balance a - amt < minimumBalance a \<longrightarrow>
      fst (SavingsAccount_withdraw amt a) = False \<and>
      fst (snd (SavingsAccount_withdraw amt a)) = a) \<and>
   (balance a - amt \<noteq> NaN \<and> minimumBalance a \<noteq> NaN \<longrightarrow>
      (\<not> balance a - amt < minimumBalance a \<longleftrightarrow> minimumBalance a \<le> balance a - amt))"
  using less_imp_not_le_double [of 0 amt]
  by (auto simp add: SavingsAccount_withdraw_def addTransaction_def Transaction_new_def Let_def
        not_less_double)

theorem SavingsAccount_withdraw_minimum_balance_witness:
  "fst (SavingsAccount_withdraw (Fin 800)
     (SavingsAccount_new ''S1'' ''Alice'' (Fin 1000) intRate_default (Fin 100))) = True \<and>
   balance (fst (snd (SavingsAccount_withdraw (Fin 800)
     (SavingsAccount_new ''S1'' ''Alice'' (Fin 1000) intRate_default (Fin 100))))) = Fin 200 \<and>
   transactionHistory (fst (snd (SavingsAccount_withdraw (Fin 800)
     (SavingsAccount_new ''S1'' ''Alice'' (Fin 1000) intRate_default (Fin 100))))) =
     [\<lparr>type = ''Initial Deposit'', amount = Fin 1000, balanceAfter = Fin 1000\<rparr>,
      \<lparr>type = ''Withdrawal'', amount = Fin 800, balanceAfter = Fin 200\<rparr>] \<and>
   minimumBalance (SavingsAccount_new ''S1'' ''Alice'' (Fin 1000) intRate_default (Fin 100)) \<le>
     balance (SavingsAccount_new ''S1'' ''Alice'' (Fin 1000) intRate_default (Fin 100)) - Fin 800 \<and>
   fst (SavingsAccount_withdraw (Fin 950)
     (SavingsAccount_new ''S1'' ''Alice'' (Fin 1000) intRate_default (Fin 100))) = False \<and>
   fst (snd (SavingsAccount_withdraw (Fin 950)
     (SavingsAccount_new ''S1'' ''Alice'' (Fin 1000) intRate_default (Fin 100)))) =
     SavingsAccount_new ''S1'' ''Alice'' (Fin 1000) intRate_default (Fin 100) \<and>
   fst (SavingsAccount_withdraw (Fin (- 1))
     (SavingsAccount_new ''S1'' ''Alice'' (Fin 1000) intRate_default (Fin 100))) = False \<and>
   fst (snd (SavingsAccount_withdraw (Fin (- 1))
     (SavingsAccount_new ''S1'' ''Alice'' (Fin 1000) intRate_default (Fin 100)))) =
     SavingsAccount_new ''S1'' ''Alice'' (Fin 1000) intRate_default (Fin 100)"
proof -
  let ?a = "SavingsAccount_new ''S1'' ''Alice'' (Fin 1000) intRate_default (Fin 100)"
  have d800: "balance ?a - Fin 800 = Fin 200" and d950: "balance ?a - Fin 950 = Fin 50"
    by (simp_all add: SavingsAccount_new_sel minus_double_def rnd_eval)
  have m: "minimumBalance ?a = Fin 100" and h: "transactionHistory ?a =
      [\<lparr>type = ''Initial Deposit'', amount = Fin 1000, balanceAfter = Fin 1000\<rparr>]"
    by (simp_all add: SavingsAccount_new_sel zero_double_def)
  note acc = SavingsAccount_withdraw_minimum_balance [of "Fin 800" ?a, unfolded d800 m]
  note rej = SavingsAccount_withdraw_minimum_balance [of "Fin 950" ?a, unfolded d950 m]
  note neg = SavingsAccount_withdraw_minimum_balance [of "Fin (- 1)" ?a]
  have 1: "fst (SavingsAccount_withdraw (Fin 800) ?a) = True \<and>
      fst (snd (SavingsAccount_withdraw (Fin 800) ?a)) =
        ?a\<lparr>balance := Fin 200, transactionHistory := transactionHistory ?a @
          [\<lparr>type = ''Withdrawal'', amount = Fin 800, balanceAfter = Fin 200\<rparr>]\<rparr>"
    using acc by (simp add: zero_double_def)
  have 2: "fst (SavingsAccount_withdraw (Fin 950) ?a) = False \<and>
      fst (snd (SavingsAccount_withdraw (Fin 950) ?a)) = ?a"
    using rej by (simp add: zero_double_def)
  have 3: "fst (SavingsAccount_withdraw (Fin (- 1)) ?a) = False \<and>
      fst (snd (SavingsAccount_withdraw (Fin (- 1)) ?a)) = ?a"
    using neg by (simp add: zero_double_def)
  have 4: "minimumBalance ?a \<le> balance ?a - Fin 800"
    using acc by (simp add: d800 m zero_double_def)
  show ?thesis
    using 1 2 3 4 by (simp add: h)
qed

text \<open>
  The claim as the specification words it compares the exact difference. A savings
  account opened through the menu with 100, the minimum balance being 100, accepts the
  withdrawal of \<open>2^(-60)\<close>, typed as 8.673617379884035e-19: the exact difference is below
  the minimum, the difference of the doubles is 100. And an account whose balance is a
  NaN accepts every withdrawal of a positive amount, although the difference, a NaN, is
  not at least the minimum.
\<close>

theorem SavingsAccount_withdraw_minimum_balance_counterexample:
  "accounts (serveAll [CreateSavings ''S1'' ''Alice'' (rnd 100)] (Bank_new ''ABC Bank'')) =
     [Savings (SavingsAccount_new ''S1'' ''Alice'' (Fin 100) intRate_default (Fin 100))] \<and>
   rnd (8.673617379884035 / 10 ^ 19) = Fin (1 / 2 ^ 60) \<and>
   (0::double) < Fin (1 / 2 ^ 60) \<and>
   val (Fin 100) - val (Fin (1 / 2 ^ 60)) < val (Fin 100) \<and>
   fst (SavingsAccount_withdraw (Fin (1 / 2 ^ 60))
     (SavingsAccount_new ''S1'' ''Alice'' (Fin 100) intRate_default (Fin 100))) = True \<and>
   transactionHistory (fst (snd (SavingsAccount_withdraw (Fin (1 / 2 ^ 60))
     (SavingsAccount_new ''S1'' ''Alice'' (Fin 100) intRate_default (Fin 100))))) =
     [\<lparr>type = ''Initial Deposit'', amount = Fin 100, balanceAfter = Fin 100\<rparr>,
      \<lparr>type = ''Withdrawal'', amount = Fin (1 / 2 ^ 60), balanceAfter = Fin 100\<rparr>] \<and>
   (0::double) < Fin 1 \<and>
   \<not> Fin 100 \<le> NaN - Fin 1 \<and>
   fst (SavingsAccount_withdraw (Fin 1)
     (SavingsAccount_new ''S3'' ''Erin'' NaN intRate_default (Fin 100))) = True"
proof -
  have bank: "accounts (serveAll [CreateSavings ''S1'' ''Alice'' (rnd 100)] (Bank_new ''ABC Bank'')) =
     [Savings (SavingsAccount_new ''S1'' ''Alice'' (Fin 100) intRate_default (Fin 100))]"
    by (simp add: serveAll_def createSavingsAccount_def Bank_new_def rnd_constants
          default_values(2))
  have typed: "rnd (8.673617379884035 / 10 ^ 19) = Fin (1 / 2 ^ 60)"
    by (simp add: rnd_eval)
  have diff: "Fin 100 - Fin (1 / 2 ^ 60) = Fin 100"
    by (simp add: minus_double_def rnd_eval)
  have run: "SavingsAccount_withdraw (Fin (1 / 2 ^ 60))
      (SavingsAccount_new ''S1'' ''Alice'' (Fin 100) intRate_default (Fin 100)) =
    (True,
     \<lparr>accountNumber = ''S1'', holderName = ''Alice'', balance = Fin 100,
      transactionHistory =
        [\<lparr>type = ''Initial Deposit'', amount = Fin 100, balanceAfter = Fin 100\<rparr>,
         \<lparr>type = ''Withdrawal'', amount = Fin (1 / 2 ^ 60), balanceAfter = Fin 100\<rparr>],
      interestRate = intRate_default, minimumBalance = Fin 100\<rparr>,
     [Str ''Withdrew $'', Dbl (Fin (1 / 2 ^ 60)), Str ''. New balance: $'', Dbl (Fin 100), Endl])"
    using diff
    by (simp add: SavingsAccount_withdraw_def addTransaction_def Transaction_new_def Let_def
          SavingsAccount_new_eq zero_double_def)
  have pos: "(0::double) < Fin (1 / 2 ^ 60)"
    and exact: "val (Fin 100) - val (Fin (1 / 2 ^ 60)) < val (Fin 100)"
    by (simp_all add: zero_double_def)
  have ok: "fst (SavingsAccount_withdraw (Fin (1 / 2 ^ 60))
      (SavingsAccount_new ''S1'' ''Alice'' (Fin 100) intRate_default (Fin 100))) = True"
    and hist: "transactionHistory (fst (snd (SavingsAccount_withdraw (Fin (1 / 2 ^ 60))
      (SavingsAccount_new ''S1'' ''Alice'' (Fin 100) intRate_default (Fin 100))))) =
      [\<lparr>type = ''Initial Deposit'', amount = Fin 100, balanceAfter = Fin 100\<rparr>,
       \<lparr>type = ''Withdrawal'', amount = Fin (1 / 2 ^ 60), balanceAfter = Fin 100\<rparr>]"
    unfolding run by simp_all
  have nan: "(0::double) < Fin 1" "\<not> Fin 100 \<le> NaN - Fin 1"
    "fst (SavingsAccount_withdraw (Fin 1)
      (SavingsAccount_new ''S3'' ''Erin'' NaN intRate_default (Fin 100))) = True"
    by (simp_all add: SavingsAccount_withdraw_def addTransaction_def Let_def
          SavingsAccount_new_sel zero_double_def minus_double_def)
  from bank typed pos exact ok hist nan show ?thesis
    by blast
qed

section \<open>Withdrawal from a current account\<close>

text \<open>
  Claim C3, as the code has it. The code takes the difference \<open>b - amount\<close> in the
  arithmetic of doubles, so it is the double nearest to the exact difference that is
  compared with \<open>- L\<close> and with zero. A withdrawal of a positive amount from a current
  account with balance \<open>b\<close>, overdraft limit \<open>L\<close> and overdraft fee \<open>f\<close> is rejected when
  this difference is less than \<open>- L\<close>: \<^verbatim>\<open>withdraw\<close> returns false and the account is as
  it was. Otherwise it is accepted. If then the difference is less than zero, the final
  balance is the difference less \<open>f\<close>, again in doubles, and two transactions are
  appended, a \<^verbatim>\<open>"Withdrawal"\<close> and then an \<^verbatim>\<open>"Overdraft Fee"\<close>; if not, the final
  balance is the difference and the \<^verbatim>\<open>"Withdrawal"\<close> alone is appended. Without a
  NaN, not less means at least. The fee is not compared with the limit: there is an
  accepted withdrawal that leaves the balance below \<open>- L\<close>.
\<close>

theorem CurrentAccount_withdraw_overdraft:
  "(0 < amt \<and> balance a - amt < - overdraftLimit a \<longrightarrow>
      fst (CurrentAccount_withdraw amt a) = False \<and>
      fst (snd (CurrentAccount_withdraw amt a)) = a) \<and>
   (0 < amt \<and> \<not> balance a - amt < - overdraftLimit a \<and> balance a - amt < 0 \<longrightarrow>
      fst (CurrentAccount_withdraw amt a) = True \<and>
      fst (snd (CurrentAccount_withdraw amt a)) =
        a\<lparr>balance := balance a - amt - overdraftFee a,
          transactionHistory := transactionHistory a @
            [\<lparr>type = ''Withdrawal'', amount = amt, balanceAfter = balance a - amt\<rparr>,
             \<lparr>type = ''Overdraft Fee'', amount = overdraftFee a,
              balanceAfter = balance a - amt - overdraftFee a\<rparr>]\<rparr>) \<and>
   (0 < amt \<and> \<not> balance a - amt < - overdraftLimit a \<and> \<not> balance a - amt < 0 \<longrightarrow>
      fst (CurrentAccount_withdraw amt a) = True \<and>
      fst (snd (CurrentAccount_withdraw amt a)) =
        a\<lparr>balance := balance a - amt,
          transactionHistory := transactionHistory a @
            [\<lparr>type = ''Withdrawal'', amount = amt, balanceAfter = balance a - amt\<rparr>]\<rparr>) \<and>
   (balance a - amt \<noteq> NaN \<and> overdraftLimit a \<noteq> NaN \<longrightarrow>
      (\<not> balance a - amt < - overdraftLimit a \<longleftrightarrow> - overdraftLimit a \<le> balance a - amt) \<and>
      (\<not> balance a - amt < 0 \<longleftrightarrow> 0 \<le> balance a - amt)) \<and>
   (\<exists>c x. 0 < x \<and> - overdraftLimit c \<le> balance c - x \<and>
      fst (CurrentAccount_withdraw x c) = True \<and>
      balance (fst (snd (CurrentAccount_withdraw x c))) < - overdraftLimit c)"
proof -
  let ?c = "CurrentAccount_new ''C1'' ''Bob'' 0 (Fin 500) (Fin 25)"
  have d: "(0::double) - Fin 490 = Fin (- 490)" "Fin (- 490) - Fin 25 = Fin (- 515)"
    by (simp_all add: zero_double_def minus_double_def rnd_eval)
  have "0 < Fin 490 \<and> - overdraftLimit ?c \<le> balance ?c - Fin 490 \<and>
      fst (CurrentAccount_withdraw (Fin 490) ?c) = True \<and>
      balance (fst (snd (CurrentAccount_withdraw (Fin 490) ?c))) < - overdraftLimit ?c"
    by (simp add: CurrentAccount_withdraw_def addTransaction_def Let_def CurrentAccount_new_sel d)
       (simp add: zero_double_def)
  then have below: "\<exists>c x. 0 < x \<and> - overdraftLimit c \<le> balance c - x \<and>
      fst (CurrentAccount_withdraw x c) = True \<and>
      balance (fst (snd (CurrentAccount_withdraw x c))) < - overdraftLimit c"
    by blast
  have neg: "overdraftLimit a \<noteq> NaN \<Longrightarrow> - overdraftLimit a \<noteq> NaN"
    by (cases "overdraftLimit a") simp_all
  have cmp: "balance a - amt \<noteq> NaN \<and> overdraftLimit a \<noteq> NaN \<longrightarrow>
      (\<not> balance a - amt < - overdraftLimit a \<longleftrightarrow> - overdraftLimit a \<le> balance a - amt) \<and>
      (\<not> balance a - amt < 0 \<longleftrightarrow> 0 \<le> balance a - amt)"
    using neg not_less_double [of "balance a - amt" "- overdraftLimit a"]
      not_less_double [of "balance a - amt" 0]
    by (auto simp add: zero_double_def)
  have main: "(0 < amt \<and> balance a - amt < - overdraftLimit a \<longrightarrow>
      fst (CurrentAccount_withdraw amt a) = False \<and>
      fst (snd (CurrentAccount_withdraw amt a)) = a) \<and>
   (0 < amt \<and> \<not> balance a - amt < - overdraftLimit a \<and> balance a - amt < 0 \<longrightarrow>
      fst (CurrentAccount_withdraw amt a) = True \<and>
      fst (snd (CurrentAccount_withdraw amt a)) =
        a\<lparr>balance := balance a - amt - overdraftFee a,
          transactionHistory := transactionHistory a @
            [\<lparr>type = ''Withdrawal'', amount = amt, balanceAfter = balance a - amt\<rparr>,
             \<lparr>type = ''Overdraft Fee'', amount = overdraftFee a,
              balanceAfter = balance a - amt - overdraftFee a\<rparr>]\<rparr>) \<and>
   (0 < amt \<and> \<not> balance a - amt < - overdraftLimit a \<and> \<not> balance a - amt < 0 \<longrightarrow>
      fst (CurrentAccount_withdraw amt a) = True \<and>
      fst (snd (CurrentAccount_withdraw amt a)) =
        a\<lparr>balance := balance a - amt,
          transactionHistory := transactionHistory a @
            [\<lparr>type = ''Withdrawal'', amount = amt, balanceAfter = balance a - amt\<rparr>]\<rparr>)"
    using less_imp_not_le_double [of 0 amt]
    by (auto simp add: CurrentAccount_withdraw_def addTransaction_def Transaction_new_def Let_def)
  from main cmp below show ?thesis by blast
qed

theorem CurrentAccount_withdraw_overdraft_witness:
  "fst (CurrentAccount_withdraw (Fin 600) (CurrentAccount_new ''C1'' ''Bob'' 0 (Fin 500) (Fin 25))) =
     False \<and>
   fst (snd (CurrentAccount_withdraw (Fin 600)
     (CurrentAccount_new ''C1'' ''Bob'' 0 (Fin 500) (Fin 25)))) =
     CurrentAccount_new ''C1'' ''Bob'' 0 (Fin 500) (Fin 25) \<and>
   fst (CurrentAccount_withdraw (Fin 300) (CurrentAccount_new ''C1'' ''Bob'' 0 (Fin 500) (Fin 25))) =
     True \<and>
   balance (fst (snd (CurrentAccount_withdraw (Fin 300)
     (CurrentAccount_new ''C1'' ''Bob'' 0 (Fin 500) (Fin 25))))) = Fin (- 325) \<and>
   transactionHistory (fst (snd (CurrentAccount_withdraw (Fin 300)
     (CurrentAccount_new ''C1'' ''Bob'' 0 (Fin 500) (Fin 25))))) =
     [\<lparr>type = ''Withdrawal'', amount = Fin 300, balanceAfter = Fin (- 300)\<rparr>,
      \<lparr>type = ''Overdraft Fee'', amount = Fin 25, balanceAfter = Fin (- 325)\<rparr>] \<and>
   - overdraftLimit (CurrentAccount_new ''C1'' ''Bob'' 0 (Fin 500) (Fin 25)) \<le>
     balance (CurrentAccount_new ''C1'' ''Bob'' 0 (Fin 500) (Fin 25)) - Fin 300 \<and>
   fst (CurrentAccount_withdraw (Fin 300)
     (CurrentAccount_new ''C2'' ''Carol'' (Fin 400) (Fin 500) (Fin 25))) = True \<and>
   balance (fst (snd (CurrentAccount_withdraw (Fin 300)
     (CurrentAccount_new ''C2'' ''Carol'' (Fin 400) (Fin 500) (Fin 25))))) = Fin 100 \<and>
   transactionHistory (fst (snd (CurrentAccount_withdraw (Fin 300)
     (CurrentAccount_new ''C2'' ''Carol'' (Fin 400) (Fin 500) (Fin 25))))) =
     [\<lparr>type = ''Initial Deposit'', amount = Fin 400, balanceAfter = Fin 400\<rparr>,
      \<lparr>type = ''Withdrawal'', amount = Fin 300, balanceAfter = Fin 100\<rparr>]"
proof -
  let ?b = "CurrentAccount_new ''C1'' ''Bob'' 0 (Fin 500) (Fin 25)"
  let ?c = "CurrentAccount_new ''C2'' ''Carol'' (Fin 400) (Fin 500) (Fin 25)"
  have sel: "balance ?b = Fin 0" "overdraftLimit ?b = Fin 500" "overdraftFee ?b = Fin 25"
    "transactionHistory ?b = []"
    "balance ?c = Fin 400" "overdraftLimit ?c = Fin 500" "overdraftFee ?c = Fin 25"
    "transactionHistory ?c = [\<lparr>type = ''Initial Deposit'', amount = Fin 400, balanceAfter = Fin 400\<rparr>]"
    by (simp_all add: CurrentAccount_new_sel zero_double_def)
  have d: "Fin 0 - Fin 600 = Fin (- 600)" "Fin 0 - Fin 300 = Fin (- 300)"
    "Fin (- 300) - Fin 25 = Fin (- 325)" "Fin 400 - Fin 300 = Fin 100"
    by (simp_all add: minus_double_def rnd_eval)
  note rej = CurrentAccount_withdraw_overdraft [of "Fin 600" ?b, unfolded sel d]
  note fee = CurrentAccount_withdraw_overdraft [of "Fin 300" ?b, unfolded sel d]
  note one = CurrentAccount_withdraw_overdraft [of "Fin 300" ?c, unfolded sel d]
  have 1: "fst (CurrentAccount_withdraw (Fin 600) ?b) = False \<and>
      fst (snd (CurrentAccount_withdraw (Fin 600) ?b)) = ?b"
    using rej by (simp add: zero_double_def)
  have 2: "fst (CurrentAccount_withdraw (Fin 300) ?b) = True \<and>
      fst (snd (CurrentAccount_withdraw (Fin 300) ?b)) =
        ?b\<lparr>balance := Fin (- 325), transactionHistory := [] @
            [\<lparr>type = ''Withdrawal'', amount = Fin 300, balanceAfter = Fin (- 300)\<rparr>,
             \<lparr>type = ''Overdraft Fee'', amount = Fin 25, balanceAfter = Fin (- 325)\<rparr>]\<rparr>"
    using fee by (simp add: zero_double_def)
  have 3: "fst (CurrentAccount_withdraw (Fin 300) ?c) = True \<and>
      fst (snd (CurrentAccount_withdraw (Fin 300) ?c)) =
        ?c\<lparr>balance := Fin 100, transactionHistory :=
            [\<lparr>type = ''Initial Deposit'', amount = Fin 400, balanceAfter = Fin 400\<rparr>] @
            [\<lparr>type = ''Withdrawal'', amount = Fin 300, balanceAfter = Fin 100\<rparr>]\<rparr>"
    using one by (simp add: zero_double_def)
  have 4: "- overdraftLimit ?b \<le> balance ?b - Fin 300"
    unfolding sel d by simp
  show ?thesis
    using 1 2 3 4 by simp
qed

text \<open>
  The claim as the specification words it compares the exact difference. A current
  account opened through the menu with 0.1, the overdraft limit being 1000, accepts the
  withdrawal of 1000.1: the exact difference of the two doubles is below \<open>-1000\<close>, their
  difference as a double is \<open>-1000\<close>. The fee is charged and the balance is \<open>-1025\<close>.
\<close>

theorem CurrentAccount_withdraw_overdraft_counterexample:
  "accounts (serveAll [CreateCurrent ''C1'' ''Bob'' (rnd 0.1)] (Bank_new ''ABC Bank'')) =
     [Current (CurrentAccount_new ''C1'' ''Bob'' (rnd 0.1) (Fin 1000) (Fin 25))] \<and>
   rnd 0.1 = Fin (3602879701896397 / 2 ^ 55) \<and>
   rnd 1000.1 = Fin (8796972631510221 / 2 ^ 43) \<and>
   (0::double) < rnd 1000.1 \<and>
   val (rnd 0.1) - val (rnd 1000.1) < - val (Fin 1000) \<and>
   fst (CurrentAccount_withdraw (rnd 1000.1)
     (CurrentAccount_new ''C1'' ''Bob'' (rnd 0.1) (Fin 1000) (Fin 25))) = True \<and>
   balance (fst (snd (CurrentAccount_withdraw (rnd 1000.1)
     (CurrentAccount_new ''C1'' ''Bob'' (rnd 0.1) (Fin 1000) (Fin 25))))) = Fin (- 1025) \<and>
   transactionHistory (fst (snd (CurrentAccount_withdraw (rnd 1000.1)
     (CurrentAccount_new ''C1'' ''Bob'' (rnd 0.1) (Fin 1000) (Fin 25))))) =
     [\<lparr>type = ''Initial Deposit'', amount = rnd 0.1, balanceAfter = rnd 0.1\<rparr>,
      \<lparr>type = ''Withdrawal'', amount = rnd 1000.1, balanceAfter = Fin (- 1000)\<rparr>,
      \<lparr>type = ''Overdraft Fee'', amount = Fin 25, balanceAfter = Fin (- 1025)\<rparr>]"
proof -
  have a: "rnd 0.1 = Fin (3602879701896397 / 2 ^ 55)"
    and b: "rnd 1000.1 = Fin (8796972631510221 / 2 ^ 43)"
    by (simp_all add: rnd_eval)
  have bank: "accounts (serveAll [CreateCurrent ''C1'' ''Bob'' (rnd 0.1)] (Bank_new ''ABC Bank'')) =
     [Current (CurrentAccount_new ''C1'' ''Bob'' (rnd 0.1) (Fin 1000) (Fin 25))]"
    by (simp add: serveAll_def createCurrentAccount_def Bank_new_def default_values)
  have d1: "Fin (3602879701896397 / 2 ^ 55) - Fin (8796972631510221 / 2 ^ 43) = Fin (- 1000)"
    by (simp add: minus_double_def rnd_eval)
  have d2: "Fin (- 1000) - Fin 25 = Fin (- 1025)"
    by (simp add: minus_double_def rnd_eval)
  have run: "CurrentAccount_withdraw (Fin (8796972631510221 / 2 ^ 43))
      (CurrentAccount_new ''C1'' ''Bob'' (Fin (3602879701896397 / 2 ^ 55)) (Fin 1000) (Fin 25)) =
    (True,
     \<lparr>accountNumber = ''C1'', holderName = ''Bob'', balance = Fin (- 1025),
      transactionHistory =
        [\<lparr>type = ''Initial Deposit'', amount = Fin (3602879701896397 / 2 ^ 55),
          balanceAfter = Fin (3602879701896397 / 2 ^ 55)\<rparr>,
         \<lparr>type = ''Withdrawal'', amount = Fin (8796972631510221 / 2 ^ 43),
          balanceAfter = Fin (- 1000)\<rparr>,
         \<lparr>type = ''Overdraft Fee'', amount = Fin 25, balanceAfter = Fin (- 1025)\<rparr>],
      overdraftLimit = Fin 1000, overdraftFee = Fin 25\<rparr>,
     [Str ''Overdraft fee of $'', Dbl (Fin 25), Str '' applied.'', Endl,
      Str ''Withdrew $'', Dbl (Fin (8796972631510221 / 2 ^ 43)), Str ''. New balance: $'',
      Dbl (Fin (- 1025)), Endl])"
    using d1 d2
    by (simp add: CurrentAccount_withdraw_def addTransaction_def Transaction_new_def Let_def
          CurrentAccount_new_eq zero_double_def)
  have pos: "(0::double) < rnd 1000.1"
    and exact: "val (rnd 0.1) - val (rnd 1000.1) < - val (Fin 1000)"
    unfolding a b by (simp_all add: zero_double_def)
  have ok: "fst (CurrentAccount_withdraw (rnd 1000.1)
      (CurrentAccount_new ''C1'' ''Bob'' (rnd 0.1) (Fin 1000) (Fin 25))) = True"
    and bal: "balance (fst (snd (CurrentAccount_withdraw (rnd 1000.1)
      (CurrentAccount_new ''C1'' ''Bob'' (rnd 0.1) (Fin 1000) (Fin 25))))) = Fin (- 1025)"
    and hist: "transactionHistory (fst (snd (CurrentAccount_withdraw (rnd 1000.1)
      (CurrentAccount_new ''C1'' ''Bob'' (rnd 0.1) (Fin 1000) (Fin 25))))) =
      [\<lparr>type = ''Initial Deposit'', amount = rnd 0.1, balanceAfter = rnd 0.1\<rparr>,
       \<lparr>type = ''Withdrawal'', amount = rnd 1000.1, balanceAfter = Fin (- 1000)\<rparr>,
       \<lparr>type = ''Overdraft Fee'', amount = Fin 25, balanceAfter = Fin (- 1025)\<rparr>]"
    unfolding a b run by simp_all
  from bank a b pos exact ok bal hist show ?thesis
    by blast
qed

section \<open>Deposits\<close>

text \<open>
  Claim C4, as the code has it. For an account of either variant, a deposit of an amount
  that is not positive leaves the account as it was and reports the failure (the message
  \<^verbatim>\<open>"Invalid deposit amount!"\<close> is all it prints). A deposit of a positive amount sets
  the balance to the sum of the balance and the amount in the arithmetic of doubles, that
  is to the double nearest to the exact sum, appends one \<^verbatim>\<open>"Deposit"\<close> transaction and
  changes nothing else.
\<close>

theorem deposit_rejects_or_credits:
  "(amt \<le> 0 \<longrightarrow>
      SavingsAccount_deposit amt s = (s, [Str ''Invalid deposit amount!'', Endl]) \<and>
      CurrentAccount_deposit amt c = (c, [Str ''Invalid deposit amount!'', Endl])) \<and>
   (0 < amt \<longrightarrow>
      fst (SavingsAccount_deposit amt s) =
        s\<lparr>balance := balance s + amt,
          transactionHistory := transactionHistory s @
            [\<lparr>type = ''Deposit'', amount = amt, balanceAfter = balance s + amt\<rparr>]\<rparr> \<and>
      fst (CurrentAccount_deposit amt c) =
        c\<lparr>balance := balance c + amt,
          transactionHistory := transactionHistory c @
            [\<lparr>type = ''Deposit'', amount = amt, balanceAfter = balance c + amt\<rparr>]\<rparr>)"
  using less_imp_not_le_double [of 0 amt]
  by (auto simp add: SavingsAccount_deposit_def CurrentAccount_deposit_def addTransaction_def
        Transaction_new_def Let_def)

theorem deposit_rejects_or_credits_witness:
  "SavingsAccount_deposit (Fin (- 5))
     (SavingsAccount_new ''S1'' ''Alice'' (Fin 1000) intRate_default (Fin 100)) =
     (SavingsAccount_new ''S1'' ''Alice'' (Fin 1000) intRate_default (Fin 100),
      [Str ''Invalid deposit amount!'', Endl]) \<and>
   CurrentAccount_deposit 0 (CurrentAccount_new ''C1'' ''Bob'' 0 (Fin 500) (Fin 25)) =
     (CurrentAccount_new ''C1'' ''Bob'' 0 (Fin 500) (Fin 25),
      [Str ''Invalid deposit amount!'', Endl]) \<and>
   balance (fst (SavingsAccount_deposit (Fin 250)
     (SavingsAccount_new ''S1'' ''Alice'' (Fin 1000) intRate_default (Fin 100)))) = Fin 1250 \<and>
   transactionHistory (fst (SavingsAccount_deposit (Fin 250)
     (SavingsAccount_new ''S1'' ''Alice'' (Fin 1000) intRate_default (Fin 100)))) =
     [\<lparr>type = ''Initial Deposit'', amount = Fin 1000, balanceAfter = Fin 1000\<rparr>,
      \<lparr>type = ''Deposit'', amount = Fin 250, balanceAfter = Fin 1250\<rparr>] \<and>
   balance (fst (CurrentAccount_deposit (Fin 250)
     (CurrentAccount_new ''C1'' ''Bob'' 0 (Fin 500) (Fin 25)))) = Fin 250 \<and>
   transactionHistory (fst (CurrentAccount_deposit (Fin 250)
     (CurrentAccount_new ''C1'' ''Bob'' 0 (Fin 500) (Fin 25)))) =
     [\<lparr>type = ''Deposit'', amount = Fin 250, balanceAfter = Fin 250\<rparr>]"
proof -
  let ?s = "SavingsAccount_new ''S1'' ''Alice'' (Fin 1000) intRate_default (Fin 100)"
  let ?c = "CurrentAccount_new ''C1'' ''Bob'' 0 (Fin 500) (Fin 25)"
  have sel: "balance ?s = Fin 1000" "balance ?c = Fin 0"
    "transactionHistory ?s =
       [\<lparr>type = ''Initial Deposit'', amount = Fin 1000, balanceAfter = Fin 1000\<rparr>]"
    "transactionHistory ?c = []"
    by (simp_all add: SavingsAccount_new_sel CurrentAccount_new_sel zero_double_def)
  have sums: "Fin 1000 + Fin 250 = Fin 1250" "Fin 0 + Fin 250 = Fin 250"
    by (simp_all add: rnd_eval)
  note neg = deposit_rejects_or_credits [of "Fin (- 5)" ?s ?c]
  note zero = deposit_rejects_or_credits [of 0 ?s ?c]
  note pos = deposit_rejects_or_credits [of "Fin 250" ?s ?c, unfolded sel sums]
  have 1: "SavingsAccount_deposit (Fin (- 5)) ?s = (?s, [Str ''Invalid deposit amount!'', Endl])"
    using neg by (simp add: zero_double_def)
  have 2: "CurrentAccount_deposit 0 ?c = (?c, [Str ''Invalid deposit amount!'', Endl])"
    using zero by (simp add: zero_double_def)
  have 3: "fst (SavingsAccount_deposit (Fin 250) ?s) =
        ?s\<lparr>balance := Fin 1250,
          transactionHistory :=
            [\<lparr>type = ''Initial Deposit'', amount = Fin 1000, balanceAfter = Fin 1000\<rparr>] @
            [\<lparr>type = ''Deposit'', amount = Fin 250, balanceAfter = Fin 1250\<rparr>]\<rparr> \<and>
      fst (CurrentAccount_deposit (Fin 250) ?c) =
        ?c\<lparr>balance := Fin 250,
          transactionHistory := [] @
            [\<lparr>type = ''Deposit'', amount = Fin 250, balanceAfter = Fin 250\<rparr>]\<rparr>"
    using pos by (simp add: zero_double_def)
  show ?thesis
    using 1 2 3 by simp
qed

text \<open>
  The claim as the specification words it has the balance grow by exactly the amount.
  A savings account opened through the menu with 1e16 keeps the balance 1e16 after the
  deposit of 1, which is recorded: the exact sum is no double, and the nearest double is
  the old balance.
\<close>

theorem deposit_rejects_or_credits_counterexample:
  "accounts (serveAll [CreateSavings ''S1'' ''Alice'' (rnd (10 ^ 16))] (Bank_new ''ABC Bank'')) =
     [Savings (SavingsAccount_new ''S1'' ''Alice'' (Fin (10 ^ 16)) intRate_default minBalance_default)] \<and>
   rnd 1 = Fin 1 \<and>
   (0::double) < Fin 1 \<and>
   balance (fst (SavingsAccount_deposit (Fin 1)
     (SavingsAccount_new ''S1'' ''Alice'' (Fin (10 ^ 16)) intRate_default minBalance_default))) =
     Fin (10 ^ 16) \<and>
   transactionHistory (fst (SavingsAccount_deposit (Fin 1)
     (SavingsAccount_new ''S1'' ''Alice'' (Fin (10 ^ 16)) intRate_default minBalance_default))) =
     [\<lparr>type = ''Initial Deposit'', amount = Fin (10 ^ 16), balanceAfter = Fin (10 ^ 16)\<rparr>,
      \<lparr>type = ''Deposit'', amount = Fin 1, balanceAfter = Fin (10 ^ 16)\<rparr>] \<and>
   val (Fin (10 ^ 16)) \<noteq> val (Fin (10 ^ 16)) + val (Fin 1)"
proof -
  have big: "rnd (10 ^ 16) = Fin (10 ^ 16)" and one: "rnd 1 = Fin 1"
    by (simp_all add: rnd_eval)
  have bank: "accounts (serveAll [CreateSavings ''S1'' ''Alice'' (rnd (10 ^ 16))]
      (Bank_new ''ABC Bank'')) =
     [Savings (SavingsAccount_new ''S1'' ''Alice'' (Fin (10 ^ 16)) intRate_default minBalance_default)]"
    unfolding big by (simp add: serveAll_def createSavingsAccount_def Bank_new_def)
  have sum: "Fin (10 ^ 16) + Fin 1 = Fin (10 ^ 16)"
    by (simp add: rnd_eval)
  have run: "fst (SavingsAccount_deposit (Fin 1)
      (SavingsAccount_new ''S1'' ''Alice'' (Fin (10 ^ 16)) intRate_default minBalance_default)) =
     \<lparr>accountNumber = ''S1'', holderName = ''Alice'', balance = Fin (10 ^ 16),
      transactionHistory =
        [\<lparr>type = ''Initial Deposit'', amount = Fin (10 ^ 16), balanceAfter = Fin (10 ^ 16)\<rparr>,
         \<lparr>type = ''Deposit'', amount = Fin 1, balanceAfter = Fin (10 ^ 16)\<rparr>],
      interestRate = intRate_default, minimumBalance = minBalance_default\<rparr>"
    using sum
    by (simp add: SavingsAccount_deposit_def addTransaction_def Transaction_new_def Let_def
          SavingsAccount_new_eq zero_double_def)
  have pos: "(0::double) < Fin 1" and exact: "val (Fin (10 ^ 16)) \<noteq> val (Fin (10 ^ 16)) + val (Fin 1)"
    by (simp_all add: zero_double_def)
  have bal: "balance (fst (SavingsAccount_deposit (Fin 1)
      (SavingsAccount_new ''S1'' ''Alice'' (Fin (10 ^ 16)) intRate_default minBalance_default))) =
      Fin (10 ^ 16)"
    and hist: "transactionHistory (fst (SavingsAccount_deposit (Fin 1)
      (SavingsAccount_new ''S1'' ''Alice'' (Fin (10 ^ 16)) intRate_default minBalance_default))) =
      [\<lparr>type = ''Initial Deposit'', amount = Fin (10 ^ 16), balanceAfter = Fin (10 ^ 16)\<rparr>,
       \<lparr>type = ''Deposit'', amount = Fin 1, balanceAfter = Fin (10 ^ 16)\<rparr>]"
    unfolding run by simp_all
  from bank one pos bal hist exact show ?thesis
    by blast
qed

text \<open>
  Claim C10. The deposit of a savings account and the deposit of a current account do
  the same: on accounts with the same balance and the same transaction history and for
  the same amount, they print the same (the failure message, or the confirmation with
  the new balance) and leave the same balance and the same history, hence have appended
  the same transaction.
\<close>

theorem deposit_variants_agree:
  "balance s = balance c \<and> transactionHistory s = transactionHistory c \<longrightarrow>
     snd (SavingsAccount_deposit amt s) = snd (CurrentAccount_deposit amt c) \<and>
     balance (fst (SavingsAccount_deposit amt s)) = balance (fst (CurrentAccount_deposit amt c)) \<and>
     transactionHistory (fst (SavingsAccount_deposit amt s)) =
       transactionHistory (fst (CurrentAccount_deposit amt c))"
  by (simp add: SavingsAccount_deposit_def CurrentAccount_deposit_def addTransaction_def Let_def)

theorem deposit_variants_agree_witness:
  "balance (SavingsAccount_new ''S1'' ''Alice'' (Fin 1000) intRate_default (Fin 100)) =
     balance (CurrentAccount_new ''C1'' ''Bob'' (Fin 1000) (Fin 500) (Fin 25)) \<and>
   transactionHistory (SavingsAccount_new ''S1'' ''Alice'' (Fin 1000) intRate_default (Fin 100)) =
     transactionHistory (CurrentAccount_new ''C1'' ''Bob'' (Fin 1000) (Fin 500) (Fin 25)) \<and>
   snd (SavingsAccount_deposit (Fin 250)
     (SavingsAccount_new ''S1'' ''Alice'' (Fin 1000) intRate_default (Fin 100))) =
     snd (CurrentAccount_deposit (Fin 250)
       (CurrentAccount_new ''C1'' ''Bob'' (Fin 1000) (Fin 500) (Fin 25))) \<and>
   balance (fst (SavingsAccount_deposit (Fin 250)
     (SavingsAccount_new ''S1'' ''Alice'' (Fin 1000) intRate_default (Fin 100)))) =
     balance (fst (CurrentAccount_deposit (Fin 250)
       (CurrentAccount_new ''C1'' ''Bob'' (Fin 1000) (Fin 500) (Fin 25)))) \<and>
   transactionHistory (fst (SavingsAccount_deposit (Fin 250)
     (SavingsAccount_new ''S1'' ''Alice'' (Fin 1000) intRate_default (Fin 100)))) =
     transactionHistory (fst (CurrentAccount_deposit (Fin 250)
       (CurrentAccount_new ''C1'' ''Bob'' (Fin 1000) (Fin 500) (Fin 25)))) \<and>
   snd (SavingsAccount_deposit 0
     (SavingsAccount_new ''S1'' ''Alice'' (Fin 1000) intRate_default (Fin 100))) =
     snd (CurrentAccount_deposit 0
       (CurrentAccount_new ''C1'' ''Bob'' (Fin 1000) (Fin 500) (Fin 25)))"
proof -
  have same: "balance (SavingsAccount_new ''S1'' ''Alice'' (Fin 1000) intRate_default (Fin 100)) =
      balance (CurrentAccount_new ''C1'' ''Bob'' (Fin 1000) (Fin 500) (Fin 25)) \<and>
    transactionHistory (SavingsAccount_new ''S1'' ''Alice'' (Fin 1000) intRate_default (Fin 100)) =
      transactionHistory (CurrentAccount_new ''C1'' ''Bob'' (Fin 1000) (Fin 500) (Fin 25))"
    by (simp add: SavingsAccount_new_sel CurrentAccount_new_sel)
  show ?thesis
    using same
      deposit_variants_agree
        [of "SavingsAccount_new ''S1'' ''Alice'' (Fin 1000) intRate_default (Fin 100)"
          "CurrentAccount_new ''C1'' ''Bob'' (Fin 1000) (Fin 500) (Fin 25)" "Fin 250"]
      deposit_variants_agree
        [of "SavingsAccount_new ''S1'' ''Alice'' (Fin 1000) intRate_default (Fin 100)"
          "CurrentAccount_new ''C1'' ''Bob'' (Fin 1000) (Fin 500) (Fin 25)" 0]
    by blast
qed

section \<open>Interest\<close>

text \<open>
  Claim C5, as the code has it. \<^verbatim>\<open>applyInterest\<close> on a savings account with balance
  \<open>B\<close> and interest rate \<open>R\<close> computes the interest \<open>B * R / 12\<close> in the arithmetic of
  doubles, rounding the product and then the quotient, sets the balance to the sum of
  \<open>B\<close> and that interest, rounded again, appends one \<^verbatim>\<open>"Interest Credit"\<close> transaction
  whose amount is that interest, and changes nothing else. It checks nothing, so a second
  call computes the interest on the balance the first call left.
\<close>

theorem applyInterest_monthly:
  "fst (SavingsAccount_applyInterest a) =
     a\<lparr>balance := balance a + balance a * interestRate a / rnd 12,
       transactionHistory := transactionHistory a @
         [\<lparr>type = ''Interest Credit'', amount = balance a * interestRate a / rnd 12,
           balanceAfter = balance a + balance a * interestRate a / rnd 12\<rparr>]\<rparr> \<and>
   balance (fst (SavingsAccount_applyInterest (fst (SavingsAccount_applyInterest a)))) =
     (balance a + balance a * interestRate a / rnd 12) +
     (balance a + balance a * interestRate a / rnd 12) * interestRate a / rnd 12"
  by (simp add: SavingsAccount_applyInterest_def addTransaction_def Transaction_new_def Let_def)

theorem applyInterest_monthly_witness:
  "balance (fst (SavingsAccount_applyInterest
     (SavingsAccount_new ''S1'' ''Alice'' (Fin 1200) intRate_default (Fin 100)))) = Fin 1204 \<and>
   transactionHistory (fst (SavingsAccount_applyInterest
     (SavingsAccount_new ''S1'' ''Alice'' (Fin 1200) intRate_default (Fin 100)))) =
     [\<lparr>type = ''Initial Deposit'', amount = Fin 1200, balanceAfter = Fin 1200\<rparr>,
      \<lparr>type = ''Interest Credit'', amount = Fin 4, balanceAfter = Fin 1204\<rparr>] \<and>
   balance (fst (SavingsAccount_applyInterest (fst (SavingsAccount_applyInterest
     (SavingsAccount_new ''S1'' ''Alice'' (Fin 1200) intRate_default (Fin 100)))))) =
     Fin 1204 + Fin (2259305813064199 / 2 ^ 49)"
proof -
  let ?a = "SavingsAccount_new ''S1'' ''Alice'' (Fin 1200) intRate_default (Fin 100)"
  have sel: "balance ?a = Fin 1200" "interestRate ?a = intRate_default"
    "transactionHistory ?a =
       [\<lparr>type = ''Initial Deposit'', amount = Fin 1200, balanceAfter = Fin 1200\<rparr>]"
    by (simp_all add: SavingsAccount_new_sel zero_double_def)
  have i1: "Fin 1200 * intRate_default / rnd 12 = Fin 4"
    by (simp add: default_values rnd_eval)
  have b1: "Fin 1200 + Fin 4 = Fin 1204"
    by (simp add: rnd_eval)
  have i2: "Fin 1204 * intRate_default / rnd 12 = Fin (2259305813064199 / 2 ^ 49)"
    by (simp add: default_values rnd_eval)
  note once = applyInterest_monthly [of ?a, THEN conjunct1, unfolded sel i1 b1]
  note twice = applyInterest_monthly [of ?a, THEN conjunct2, unfolded sel i1 b1 i2]
  have first: "balance (fst (SavingsAccount_applyInterest ?a)) = Fin 1204 \<and>
      transactionHistory (fst (SavingsAccount_applyInterest ?a)) =
      [\<lparr>type = ''Initial Deposit'', amount = Fin 1200, balanceAfter = Fin 1200\<rparr>,
       \<lparr>type = ''Interest Credit'', amount = Fin 4, balanceAfter = Fin 1204\<rparr>]"
    unfolding once by simp
  from first twice show ?thesis by blast
qed

text \<open>
  The claim as the specification words it has the balance grow by exactly \<open>B * R / 12\<close>,
  which is also the amount recorded. A savings account opened through the menu with
  1000 has, after the interest run, an interest credit that is not the exact
  \<open>B * R / 12\<close> for the rate the account holds (nor for the rate 0.04), and the balance
  has not grown by the amount recorded.
\<close>

theorem applyInterest_monthly_counterexample:
  "accounts (serveAll [CreateSavings ''S1'' ''Alice'' (rnd 1000), ApplyInterestToSavings]
     (Bank_new ''ABC Bank'')) =
     [Savings \<lparr>accountNumber = ''S1'', holderName = ''Alice'',
        balance = Fin (8825413332282027 / 2 ^ 43),
        transactionHistory =
          [\<lparr>type = ''Initial Deposit'', amount = Fin 1000, balanceAfter = Fin 1000\<rparr>,
           \<lparr>type = ''Interest Credit'', amount = Fin (7505999378950827 / 2 ^ 51),
             balanceAfter = Fin (8825413332282027 / 2 ^ 43)\<rparr>],
        interestRate = intRate_default, minimumBalance = minBalance_default\<rparr>] \<and>
   val (Fin (7505999378950827 / 2 ^ 51)) \<noteq> val (Fin 1000) * val intRate_default / 12 \<and>
   val (Fin (7505999378950827 / 2 ^ 51)) \<noteq> 1000 * 0.04 / 12 \<and>
   val (Fin (8825413332282027 / 2 ^ 43)) - val (Fin 1000) \<noteq> val (Fin (7505999378950827 / 2 ^ 51))"
proof -
  have i: "Fin 1000 * intRate_default / rnd 12 = Fin (7505999378950827 / 2 ^ 51)"
    by (simp add: default_values rnd_eval)
  have b: "Fin 1000 + Fin (7505999378950827 / 2 ^ 51) = Fin (8825413332282027 / 2 ^ 43)"
    by (simp add: rnd_eval)
  have thousand: "rnd 1000 = Fin 1000"
    by (simp add: rnd_eval)
  have opened: "SavingsAccount_new ''S1'' ''Alice'' (Fin 1000) intRate_default minBalance_default =
      \<lparr>accountNumber = ''S1'', holderName = ''Alice'', balance = Fin 1000,
        transactionHistory =
          [\<lparr>type = ''Initial Deposit'', amount = Fin 1000, balanceAfter = Fin 1000\<rparr>],
        interestRate = intRate_default, minimumBalance = minBalance_default\<rparr>"
    by (simp add: SavingsAccount_new_eq zero_double_def)
  have bank: "accounts (serveAll [CreateSavings ''S1'' ''Alice'' (rnd 1000), ApplyInterestToSavings]
     (Bank_new ''ABC Bank'')) =
     [Savings \<lparr>accountNumber = ''S1'', holderName = ''Alice'',
        balance = Fin (8825413332282027 / 2 ^ 43),
        transactionHistory =
          [\<lparr>type = ''Initial Deposit'', amount = Fin 1000, balanceAfter = Fin 1000\<rparr>,
           \<lparr>type = ''Interest Credit'', amount = Fin (7505999378950827 / 2 ^ 51),
             balanceAfter = Fin (8825413332282027 / 2 ^ 43)\<rparr>],
        interestRate = intRate_default, minimumBalance = minBalance_default\<rparr>]"
    unfolding thousand
    using i b
    by (simp add: serveAll_def createSavingsAccount_def Bank_new_def
          applyInterestToSavingsAccounts_def SavingsAccount_applyInterest_def addTransaction_def
          Transaction_new_def Let_def opened)
  have exact: "val (Fin (7505999378950827 / 2 ^ 51)) \<noteq> val (Fin 1000) * val intRate_default / 12"
    "val (Fin (7505999378950827 / 2 ^ 51)) \<noteq> 1000 * 0.04 / 12"
    "val (Fin (8825413332282027 / 2 ^ 43)) - val (Fin 1000) \<noteq> val (Fin (7505999378950827 / 2 ^ 51))"
    by (simp_all add: default_values)
  from bank exact show ?thesis by blast
qed

section \<open>Creation of an account\<close>

text \<open>
  Claim C7, as the code has it. A savings or current account created with a positive
  initial balance \<open>B\<close> starts with the balance \<open>B\<close> and a transaction history of exactly
  one \<^verbatim>\<open>"Initial Deposit"\<close> transaction of amount \<open>B\<close>. An account created with an
  initial balance of zero, or with a negative one, starts with the balance \<open>B\<close> and an
  empty transaction history; so does every account whose initial balance is not
  positive, a NaN included.
\<close>

theorem account_creation:
  "(0 < B \<longrightarrow>
      balance (SavingsAccount_new n h B r m) = B \<and>
      transactionHistory (SavingsAccount_new n h B r m) =
        [\<lparr>type = ''Initial Deposit'', amount = B, balanceAfter = B\<rparr>] \<and>
      balance (CurrentAccount_new n h B l f) = B \<and>
      transactionHistory (CurrentAccount_new n h B l f) =
        [\<lparr>type = ''Initial Deposit'', amount = B, balanceAfter = B\<rparr>]) \<and>
   (B \<le> 0 \<longrightarrow>
      balance (SavingsAccount_new n h B r m) = B \<and>
      transactionHistory (SavingsAccount_new n h B r m) = [] \<and>
      balance (CurrentAccount_new n h B l f) = B \<and>
      transactionHistory (CurrentAccount_new n h B l f) = []) \<and>
   (\<not> 0 < B \<longrightarrow>
      balance (SavingsAccount_new n h B r m) = B \<and>
      transactionHistory (SavingsAccount_new n h B r m) = [] \<and>
      balance (CurrentAccount_new n h B l f) = B \<and>
      transactionHistory (CurrentAccount_new n h B l f) = [])"
  using less_imp_not_le_double [of 0 B]
  by (auto simp add: SavingsAccount_new_sel CurrentAccount_new_sel)

theorem account_creation_witness:
  "transactionHistory (SavingsAccount_new ''S1'' ''Alice'' (Fin 1000) intRate_default (Fin 100)) =
     [\<lparr>type = ''Initial Deposit'', amount = Fin 1000, balanceAfter = Fin 1000\<rparr>] \<and>
   balance (CurrentAccount_new ''C1'' ''Bob'' (Fin 1000) (Fin 500) (Fin 25)) = Fin 1000 \<and>
   transactionHistory (SavingsAccount_new ''S2'' ''Carol'' 0 intRate_default (Fin 100)) = [] \<and>
   balance (CurrentAccount_new ''C2'' ''Dave'' (Fin (- 5)) (Fin 500) (Fin 25)) = Fin (- 5) \<and>
   transactionHistory (CurrentAccount_new ''C2'' ''Dave'' (Fin (- 5)) (Fin 500) (Fin 25)) = [] \<and>
   transactionHistory (SavingsAccount_new ''S3'' ''Erin'' NaN intRate_default (Fin 100)) = []"
proof -
  have c: "(0::double) < Fin 1000" "(0::double) \<le> 0" "Fin (- 5) \<le> (0::double)"
    "\<not> (0::double) < NaN"
    by (simp_all add: zero_double_def)
  note alice = account_creation
    [of "Fin 1000" "''S1''" "''Alice''" intRate_default "Fin 100" "Fin 500" "Fin 25",
      THEN conjunct1, THEN mp, OF c(1)]
  note bob = account_creation
    [of "Fin 1000" "''C1''" "''Bob''" intRate_default "Fin 100" "Fin 500" "Fin 25",
      THEN conjunct1, THEN mp, OF c(1)]
  note carol = account_creation
    [of 0 "''S2''" "''Carol''" intRate_default "Fin 100" "Fin 500" "Fin 25",
      THEN conjunct2, THEN conjunct1, THEN mp, OF c(2)]
  note dave = account_creation
    [of "Fin (- 5)" "''C2''" "''Dave''" intRate_default "Fin 100" "Fin 500" "Fin 25",
      THEN conjunct2, THEN conjunct1, THEN mp, OF c(3)]
  note erin = account_creation
    [of NaN "''S3''" "''Erin''" intRate_default "Fin 100" "Fin 500" "Fin 25",
      THEN conjunct2, THEN conjunct2, THEN mp, OF c(4)]
  from alice bob carol dave erin show ?thesis by simp
qed

text \<open>
  The claim as the specification words it asks for the \<^verbatim>\<open>"Initial Deposit"\<close>
  transaction whenever the initial balance is not zero. An account opened with the
  initial balance \<open>-5\<close> has none.
\<close>

theorem account_creation_counterexample:
  "Fin (- 5) \<noteq> (0::double) \<and>
   accounts (fst (createSavingsAccount ''S1'' ''Alice'' (Fin (- 5)) (Bank_new ''ABC Bank''))) =
     [Savings (SavingsAccount_new ''S1'' ''Alice'' (Fin (- 5)) intRate_default minBalance_default)] \<and>
   transactionHistory
     (SavingsAccount_new ''S1'' ''Alice'' (Fin (- 5)) intRate_default minBalance_default) = [] \<and>
   transactionHistory
     (SavingsAccount_new ''S1'' ''Alice'' (Fin (- 5)) intRate_default minBalance_default) \<noteq>
     [\<lparr>type = ''Initial Deposit'', amount = Fin (- 5), balanceAfter = Fin (- 5)\<rparr>]"
  by (simp add: SavingsAccount_new_sel createSavingsAccount_def Bank_new_def zero_double_def)

section \<open>Looking an account up\<close>

lemma find_if_le: "find_if p xs \<le> length xs"
  by (induction xs) auto

lemma find_if_end: "find_if p xs = length xs \<longleftrightarrow> (\<forall>x \<in> set xs. \<not> p x)"
proof (induction xs)
  case Nil
  show ?case by simp
next
  case (Cons x xs)
  then show ?case by auto
qed

lemma find_if_found: "find_if p xs < length xs \<Longrightarrow> p (xs ! find_if p xs)"
  by (induction xs) (auto split: if_splits)

lemma find_if_first: "j < find_if p xs \<Longrightarrow> \<not> p (xs ! j)"
proof (induction xs arbitrary: j)
  case Nil
  then show ?case by simp
next
  case (Cons x xs)
  then show ?case by (cases j) (auto split: if_splits)
qed

lemma find_if_append:
  "find_if p xs \<noteq> length xs \<Longrightarrow> find_if p (xs @ ys) = find_if p xs"
  by (induction xs) auto

lemma exampleBank_accounts:
  "accounts exampleBank =
     [Savings (SavingsAccount_new ''S1'' ''Alice'' (Fin 1000) intRate_default minBalance_default),
      Current (CurrentAccount_new ''C1'' ''Bob'' 0 overdraftLim_default overdraftF_default),
      Savings (SavingsAccount_new ''S1'' ''Eve'' (Fin 50) intRate_default minBalance_default)]"
  by (simp add: exampleBank_def serveAll_def createSavingsAccount_def createCurrentAccount_def
        Bank_new_def rnd_constants)

text \<open>
  Claim C6. \<^verbatim>\<open>findAccount\<close> returns the null pointer exactly when no account of the
  bank has the number asked for. Otherwise it points to an account of the bank with
  that number, and no account before it in the vector, that is no account created
  earlier, has the number. Creating one more account with the same number changes
  neither the pointer nor the account it points to: of several accounts with one
  number, the first created is the one found.
\<close>

theorem findAccount_first_match:
  "(findAccount accNum bank = None \<longleftrightarrow>
      (\<forall>acc \<in> set (accounts bank). getAccountNumber acc \<noteq> accNum)) \<and>
   (\<forall>i. findAccount accNum bank = Some i \<longrightarrow>
      i < length (accounts bank) \<and>
      getAccountNumber (accounts bank ! i) = accNum \<and>
      (\<forall>j < i. getAccountNumber (accounts bank ! j) \<noteq> accNum) \<and>
      findAccount accNum (fst (createSavingsAccount accNum holder B bank)) = Some i \<and>
      findAccount accNum (fst (createCurrentAccount accNum holder B bank)) = Some i \<and>
      accounts (fst (createSavingsAccount accNum holder B bank)) ! i = accounts bank ! i \<and>
      accounts (fst (createCurrentAccount accNum holder B bank)) ! i = accounts bank ! i)"
proof -
  let ?p = "\<lambda>acc. getAccountNumber acc = accNum"
  let ?it = "find_if ?p (accounts bank)"
  have none: "findAccount accNum bank = None \<longleftrightarrow>
      (\<forall>acc \<in> set (accounts bank). getAccountNumber acc \<noteq> accNum)"
    using find_if_end [of ?p "accounts bank"] by (simp add: findAccount_def Let_def)
  have some: "i < length (accounts bank) \<and>
      getAccountNumber (accounts bank ! i) = accNum \<and>
      (\<forall>j < i. getAccountNumber (accounts bank ! j) \<noteq> accNum) \<and>
      findAccount accNum (fst (createSavingsAccount accNum holder B bank)) = Some i \<and>
      findAccount accNum (fst (createCurrentAccount accNum holder B bank)) = Some i \<and>
      accounts (fst (createSavingsAccount accNum holder B bank)) ! i = accounts bank ! i \<and>
      accounts (fst (createCurrentAccount accNum holder B bank)) ! i = accounts bank ! i"
    if "findAccount accNum bank = Some i" for i
  proof -
    from that have i: "i = ?it" and ne: "?it \<noteq> length (accounts bank)"
      by (auto simp add: findAccount_def Let_def split: if_splits)
    from ne have lt: "?it < length (accounts bank)"
      using find_if_le [of ?p "accounts bank"] by simp
    have hit: "getAccountNumber (accounts bank ! ?it) = accNum"
      using find_if_found [OF lt] .
    have first: "\<forall>j < ?it. getAccountNumber (accounts bank ! j) \<noteq> accNum"
      using find_if_first [of _ ?p "accounts bank"] by blast
    have app: "find_if ?p (accounts bank @ ys) = ?it" for ys
      using find_if_append [OF ne] .
    have dupS: "findAccount accNum (fst (createSavingsAccount accNum holder B bank)) = Some ?it"
      using lt by (simp add: findAccount_def createSavingsAccount_def Let_def app)
    have dupC: "findAccount accNum (fst (createCurrentAccount accNum holder B bank)) = Some ?it"
      using lt by (simp add: findAccount_def createCurrentAccount_def Let_def app)
    have keep: "(accounts bank @ ys) ! ?it = accounts bank ! ?it" for ys
      using lt by (simp add: nth_append)
    show ?thesis
      using lt hit first dupS dupC keep
      by (simp add: i createSavingsAccount_def createCurrentAccount_def)
  qed
  show ?thesis using none some by blast
qed

theorem findAccount_first_match_witness:
  "findAccount ''S1'' exampleBank = Some 0 \<and>
   accounts exampleBank ! 0 = Savings (SavingsAccount_new ''S1'' ''Alice'' (Fin 1000) intRate_default minBalance_default) \<and>
   getAccountNumber (accounts exampleBank ! 2) = ''S1'' \<and>
   findAccount ''C1'' exampleBank = Some 1 \<and>
   findAccount ''X9'' exampleBank = None \<and>
   findAccount ''S1'' (fst (createCurrentAccount ''S1'' ''Mallory'' (Fin 7) exampleBank)) = Some 0 \<and>
   accounts (fst (createCurrentAccount ''S1'' ''Mallory'' (Fin 7) exampleBank)) ! 0 =
     Savings (SavingsAccount_new ''S1'' ''Alice'' (Fin 1000) intRate_default minBalance_default)"
proof -
  have found: "findAccount ''S1'' exampleBank = Some 0"
    by (simp add: findAccount_def Let_def exampleBank_accounts SavingsAccount_new_sel
          CurrentAccount_new_sel)
  have other: "findAccount ''C1'' exampleBank = Some 1"
    by (simp add: findAccount_def Let_def exampleBank_accounts SavingsAccount_new_sel
          CurrentAccount_new_sel)
  have absent: "\<forall>acc \<in> set (accounts exampleBank). getAccountNumber acc \<noteq> ''X9''"
    by (simp add: exampleBank_accounts SavingsAccount_new_sel CurrentAccount_new_sel)
  note first = findAccount_first_match [of "''S1''" exampleBank "''Mallory''" "Fin 7"]
  note none = findAccount_first_match [of "''X9''" exampleBank "''Mallory''" "Fin 7"]
  have dup: "findAccount ''S1'' (fst (createCurrentAccount ''S1'' ''Mallory'' (Fin 7) exampleBank)) = Some 0 \<and>
      accounts (fst (createCurrentAccount ''S1'' ''Mallory'' (Fin 7) exampleBank)) ! 0 =
        accounts exampleBank ! 0"
    using first found by blast
  have gone: "findAccount ''X9'' exampleBank = None"
    using none absent by blast
  have at0: "accounts exampleBank ! 0 = Savings (SavingsAccount_new ''S1'' ''Alice'' (Fin 1000) intRate_default minBalance_default)"
    and at2: "getAccountNumber (accounts exampleBank ! 2) = ''S1''"
    by (simp_all add: exampleBank_accounts SavingsAccount_new_sel)
  show ?thesis
    using found other gone dup at0 at2 by simp
qed

section \<open>The interest run of the bank\<close>

lemma applyInterest_each_accounts:
  "fst (applyInterest_each xs) =
     map (\<lambda>acc. case acc of Savings s \<Rightarrow> Savings (fst (SavingsAccount_applyInterest s))
                          | Current c \<Rightarrow> Current c) xs"
proof (induction xs)
  case Nil
  show ?case by simp
next
  case (Cons acc rest)
  then show ?case by (cases acc) (simp_all add: split_def Let_def)
qed

lemma applyInterest_each_output:
  "snd (applyInterest_each xs) =
     concat (map (\<lambda>acc. case acc of
                Savings s \<Rightarrow> Str ''Account '' # Str (accountNumber s) # Str '': '' #
                             snd (SavingsAccount_applyInterest s)
              | Current c \<Rightarrow> []) xs)"
proof (induction xs)
  case Nil
  show ?case by simp
next
  case (Cons acc rest)
  then show ?case by (cases acc) (simp_all add: split_def Let_def)
qed

text \<open>
  Claim C9. The interest run keeps the number and the order of the accounts. Every
  savings account of the bank is replaced by the result of one call of
  \<^verbatim>\<open>applyInterest\<close> on it, and every current account is left as it is, with all its
  fields. The name of the bank does not change. The calls are made in the order of the
  vector, the order of creation: the output is the heading and then, for each savings
  account in that order, its account number and what its \<^verbatim>\<open>applyInterest\<close> prints.
\<close>

theorem applyInterestToSavingsAccounts_each_once:
  "length (accounts (fst (applyInterestToSavingsAccounts bank))) = length (accounts bank) \<and>
   (\<forall>i < length (accounts bank).
      (\<forall>s. accounts bank ! i = Savings s \<longrightarrow>
         accounts (fst (applyInterestToSavingsAccounts bank)) ! i =
           Savings (fst (SavingsAccount_applyInterest s))) \<and>
      (\<forall>c. accounts bank ! i = Current c \<longrightarrow>
         accounts (fst (applyInterestToSavingsAccounts bank)) ! i = Current c)) \<and>
   bankName (fst (applyInterestToSavingsAccounts bank)) = bankName bank \<and>
   snd (applyInterestToSavingsAccounts bank) =
     [Str (CHR 0x0A # ''=== Applying Monthly Interest ===''), Endl] @
     concat (map (\<lambda>acc. case acc of
                Savings s \<Rightarrow> Str ''Account '' # Str (accountNumber s) # Str '': '' #
                             snd (SavingsAccount_applyInterest s)
              | Current c \<Rightarrow> []) (accounts bank))"
proof -
  have accs: "accounts (fst (applyInterestToSavingsAccounts bank)) =
      fst (applyInterest_each (accounts bank))"
    by (simp add: applyInterestToSavingsAccounts_def split_def Let_def)
  have name: "bankName (fst (applyInterestToSavingsAccounts bank)) = bankName bank"
    by (simp add: applyInterestToSavingsAccounts_def split_def Let_def)
  have out: "snd (applyInterestToSavingsAccounts bank) =
      [Str (CHR 0x0A # ''=== Applying Monthly Interest ===''), Endl] @
      snd (applyInterest_each (accounts bank))"
    by (simp add: applyInterestToSavingsAccounts_def split_def Let_def)
  show ?thesis
    unfolding accs out applyInterest_each_accounts applyInterest_each_output
    using name by simp
qed

theorem applyInterestToSavingsAccounts_each_once_witness:
  "length (accounts (fst (applyInterestToSavingsAccounts exampleBank))) = 3 \<and>
   accounts (fst (applyInterestToSavingsAccounts exampleBank)) ! 0 =
     Savings (fst (SavingsAccount_applyInterest (SavingsAccount_new ''S1'' ''Alice'' (Fin 1000) intRate_default minBalance_default))) \<and>
   accounts (fst (applyInterestToSavingsAccounts exampleBank)) ! 1 =
     Current (CurrentAccount_new ''C1'' ''Bob'' 0 overdraftLim_default overdraftF_default) \<and>
   accounts (fst (applyInterestToSavingsAccounts exampleBank)) ! 2 =
     Savings (fst (SavingsAccount_applyInterest (SavingsAccount_new ''S1'' ''Eve'' (Fin 50) intRate_default minBalance_default))) \<and>
   getBalance (accounts (fst (applyInterestToSavingsAccounts exampleBank)) ! 2) =
     Fin (7060330665825621 / 2 ^ 47)"
proof -
  note run = applyInterestToSavingsAccounts_each_once [of exampleBank]
  have len: "length (accounts exampleBank) = 3"
    and a0: "accounts exampleBank ! 0 = Savings (SavingsAccount_new ''S1'' ''Alice'' (Fin 1000) intRate_default minBalance_default)"
    and a1: "accounts exampleBank ! 1 = Current (CurrentAccount_new ''C1'' ''Bob'' 0 overdraftLim_default overdraftF_default)"
    and a2: "accounts exampleBank ! 2 = Savings (SavingsAccount_new ''S1'' ''Eve'' (Fin 50) intRate_default minBalance_default)"
    by (simp_all add: exampleBank_accounts)
  have l: "length (accounts (fst (applyInterestToSavingsAccounts exampleBank))) = 3"
    using run len by simp
  have s: "accounts (fst (applyInterestToSavingsAccounts exampleBank)) ! i =
      Savings (fst (SavingsAccount_applyInterest s))"
    if "i < 3" and "accounts exampleBank ! i = Savings s" for i s
    using run len that by simp
  have c: "accounts (fst (applyInterestToSavingsAccounts exampleBank)) ! i = Current c"
    if "i < 3" and "accounts exampleBank ! i = Current c" for i c
    using run len that by simp
  have i: "Fin 50 + Fin 50 * intRate_default / rnd 12 = Fin (7060330665825621 / 2 ^ 47)"
    by (simp add: default_values rnd_eval)
  have b: "getBalance (Savings (fst (SavingsAccount_applyInterest
      (SavingsAccount_new ''S1'' ''Eve'' (Fin 50) intRate_default minBalance_default)))) =
      Fin (7060330665825621 / 2 ^ 47)"
    using i
    by (simp add: SavingsAccount_applyInterest_def addTransaction_def Let_def SavingsAccount_new_sel)
  show ?thesis
    using l s [OF _ a0] c [OF _ a1] s [OF _ a2] b by simp
qed

section \<open>The balance and the transaction history\<close>

lemma replay_simps:
  "replay b [] = b"
  "replay b (t # ts) = replay (applySigned b t) ts"
  "replay b (xs @ ys) = replay (replay b xs) ys"
  by (simp_all add: replay_def)

lemma afterOpening_simps:
  "afterOpening [] = []"
  "afterOpening (t # ts) =
     (if type t \<noteq> ''Initial Deposit'' then t # afterOpening ts else afterOpening ts)"
  "afterOpening (xs @ ys) = afterOpening xs @ afterOpening ys"
  by (simp_all add: afterOpening_def)

lemma afterOpening_id: "(\<forall>t \<in> set ts. type t \<noteq> ''Initial Deposit'') \<Longrightarrow> afterOpening ts = ts"
  by (simp add: afterOpening_def)

lemma signedSum_simps:
  "signedSum [] = 0"
  "signedSum (t # ts) = signedAmount t + signedSum ts"
  by (simp_all add: signedSum_def)

text \<open>
  What one operation does: it appends at most two transactions, none of them an initial
  deposit; the new balance is the old one with these transactions applied; and each of
  them holds the balance reached with it.
\<close>

lemma perform_effect:
  "\<exists>new. getTransactionHistory (perform op acc) = getTransactionHistory acc @ new \<and>
         getBalance (perform op acc) = replay (getBalance acc) new \<and>
         length new \<le> 2 \<and>
         (\<forall>t \<in> set new. type t \<noteq> ''Initial Deposit'') \<and>
         (\<forall>k < length new. balanceAfter (new ! k) = replay (getBalance acc) (take (Suc k) new))"
proof (cases acc)
  case (Savings s)
  show ?thesis
  proof (cases op)
    case (Deposit amt)
    show ?thesis
      by (rule exI [of _ "if amt \<le> 0 then []
             else [\<lparr>type = ''Deposit'', amount = amt, balanceAfter = balance s + amt\<rparr>]"])
         (simp add: Savings Deposit operation_defs Let_def replay_simps applySigned_def)
  next
    case (Withdraw amt)
    show ?thesis
      by (rule exI [of _ "if amt \<le> 0 \<or> balance s - amt < minimumBalance s then []
             else [\<lparr>type = ''Withdrawal'', amount = amt, balanceAfter = balance s - amt\<rparr>]"])
         (simp add: Savings Withdraw operation_defs Let_def replay_simps applySigned_def)
  next
    case ApplyInterest
    show ?thesis
      by (rule exI [of _ "[\<lparr>type = ''Interest Credit'',
             amount = balance s * interestRate s / rnd 12,
             balanceAfter = balance s + balance s * interestRate s / rnd 12\<rparr>]"])
         (simp add: Savings ApplyInterest operation_defs Let_def replay_simps applySigned_def)
  qed
next
  case (Current c)
  show ?thesis
  proof (cases op)
    case (Deposit amt)
    show ?thesis
      by (rule exI [of _ "if amt \<le> 0 then []
             else [\<lparr>type = ''Deposit'', amount = amt, balanceAfter = balance c + amt\<rparr>]"])
         (simp add: Current Deposit operation_defs Let_def replay_simps applySigned_def)
  next
    case (Withdraw amt)
    show ?thesis
      by (rule exI [of _ "if amt \<le> 0 \<or> balance c - amt < - overdraftLimit c then []
             else if balance c - amt < 0
             then [\<lparr>type = ''Withdrawal'', amount = amt, balanceAfter = balance c - amt\<rparr>,
                   \<lparr>type = ''Overdraft Fee'', amount = overdraftFee c,
                    balanceAfter = balance c - amt - overdraftFee c\<rparr>]
             else [\<lparr>type = ''Withdrawal'', amount = amt, balanceAfter = balance c - amt\<rparr>]"])
         (auto simp add: Current Withdraw operation_defs Let_def replay_simps applySigned_def
            less_Suc_eq)
  next
    case ApplyInterest
    show ?thesis
      by (rule exI [of _ "[]"]) (simp add: Current ApplyInterest replay_simps)
  qed
qed

lemma perform_ledger:
  assumes "getBalance acc = replay B (afterOpening (getTransactionHistory acc))"
  shows "getBalance (perform op acc) =
    replay B (afterOpening (getTransactionHistory (perform op acc)))"
proof -
  obtain new where h: "getTransactionHistory (perform op acc) = getTransactionHistory acc @ new"
    and b: "getBalance (perform op acc) = replay (getBalance acc) new"
    and o: "\<forall>t \<in> set new. type t \<noteq> ''Initial Deposit''"
    using perform_effect [of op acc] by blast
  show ?thesis
    using assms by (simp add: h b afterOpening_simps replay_simps afterOpening_id [OF o])
qed

lemma performAll_ledger:
  "getBalance acc = replay B (afterOpening (getTransactionHistory acc)) \<Longrightarrow>
   getBalance (performAll ops acc) =
     replay B (afterOpening (getTransactionHistory (performAll ops acc)))"
  unfolding performAll_def
  by (induction ops arbitrary: acc) (simp_all add: perform_ledger)

lemma opened_ledger:
  "getBalance (Savings (SavingsAccount_new n h B r m)) =
     replay B (afterOpening (getTransactionHistory (Savings (SavingsAccount_new n h B r m))))"
  "getBalance (Current (CurrentAccount_new n h B l f)) =
     replay B (afterOpening (getTransactionHistory (Current (CurrentAccount_new n h B l f))))"
  by (simp_all add: SavingsAccount_new_sel CurrentAccount_new_sel afterOpening_simps replay_simps)

text \<open>The two accounts of the scenarios of the specification, after their operations.\<close>

lemma scenario_savings:
  "performAll [Withdraw (Fin 950), Withdraw (Fin 800), ApplyInterest]
     (Savings (SavingsAccount_new ''S1'' ''Alice'' (Fin 1000) intRate_default (Fin 100))) =
   Savings \<lparr>accountNumber = ''S1'', holderName = ''Alice'',
     balance = Fin (7060330665825621 / 2 ^ 45),
     transactionHistory =
       [\<lparr>type = ''Initial Deposit'', amount = Fin 1000, balanceAfter = Fin 1000\<rparr>,
        \<lparr>type = ''Withdrawal'', amount = Fin 800, balanceAfter = Fin 200\<rparr>,
        \<lparr>type = ''Interest Credit'', amount = Fin (6004799503160661 / 2 ^ 53),
          balanceAfter = Fin (7060330665825621 / 2 ^ 45)\<rparr>],
     interestRate = intRate_default, minimumBalance = Fin 100\<rparr>"
proof -
  have a: "Fin 1000 - Fin 950 = Fin 50" "Fin 1000 - Fin 800 = Fin 200"
    "Fin 200 * intRate_default / rnd 12 = Fin (6004799503160661 / 2 ^ 53)"
    "Fin 200 + Fin (6004799503160661 / 2 ^ 53) = Fin (7060330665825621 / 2 ^ 45)"
    by (simp_all add: minus_double_def default_values rnd_eval)
  show ?thesis
    using a
    by (simp add: performAll_def operation_defs Let_def SavingsAccount_new_eq zero_double_def)
qed

lemma scenario_current:
  "performAll [Withdraw (Fin 300), Withdraw (Fin 200), Deposit (Fin 25)]
     (Current (CurrentAccount_new ''C1'' ''Bob'' 0 (Fin 500) (Fin 25))) =
   Current \<lparr>accountNumber = ''C1'', holderName = ''Bob'', balance = Fin (- 300),
     transactionHistory =
       [\<lparr>type = ''Withdrawal'', amount = Fin 300, balanceAfter = Fin (- 300)\<rparr>,
        \<lparr>type = ''Overdraft Fee'', amount = Fin 25, balanceAfter = Fin (- 325)\<rparr>,
        \<lparr>type = ''Deposit'', amount = Fin 25, balanceAfter = Fin (- 300)\<rparr>],
     overdraftLimit = Fin 500, overdraftFee = Fin 25\<rparr>"
proof -
  have a: "Fin 0 - Fin 300 = Fin (- 300)" "Fin (- 300) - Fin 25 = Fin (- 325)"
    "Fin (- 325) - Fin 200 = Fin (- 525)" "Fin (- 325) + Fin 25 = Fin (- 300)"
    by (simp_all add: minus_double_def rnd_eval)
  show ?thesis
    using a
    by (simp add: performAll_def operation_defs Let_def CurrentAccount_new_eq zero_double_def)
qed

text \<open>
  Claim C1, as the code has it. After any sequence of deposits, withdrawals and interest
  runs on a savings or current account opened with the initial balance \<open>B\<close>, the balance
  is what results from \<open>B\<close> when the amounts of the recorded transactions other than the
  initial deposit are added (deposits, interest credits) or subtracted (withdrawals,
  overdraft fees) one after the other, in the order of the history and in the
  arithmetic of doubles. The initial deposit records the opening balance itself.
\<close>

theorem balance_is_ledger_total:
  "getBalance (performAll ops (Savings (SavingsAccount_new n h B r m))) =
     replay B (afterOpening
       (getTransactionHistory (performAll ops (Savings (SavingsAccount_new n h B r m))))) \<and>
   getBalance (performAll ops (Current (CurrentAccount_new n h B l f))) =
     replay B (afterOpening
       (getTransactionHistory (performAll ops (Current (CurrentAccount_new n h B l f)))))"
  using performAll_ledger [OF opened_ledger(1)] performAll_ledger [OF opened_ledger(2)]
  by simp

theorem balance_is_ledger_total_witness:
  "getBalance (performAll [Withdraw (Fin 950), Withdraw (Fin 800), ApplyInterest]
     (Savings (SavingsAccount_new ''S1'' ''Alice'' (Fin 1000) intRate_default (Fin 100)))) =
     Fin (7060330665825621 / 2 ^ 45) \<and>
   replay (Fin 1000) (afterOpening (getTransactionHistory
     (performAll [Withdraw (Fin 950), Withdraw (Fin 800), ApplyInterest]
       (Savings (SavingsAccount_new ''S1'' ''Alice'' (Fin 1000) intRate_default (Fin 100)))))) =
     Fin (7060330665825621 / 2 ^ 45) \<and>
   getBalance (performAll [Withdraw (Fin 300), Withdraw (Fin 200), Deposit (Fin 25)]
     (Current (CurrentAccount_new ''C1'' ''Bob'' 0 (Fin 500) (Fin 25)))) = Fin (- 300) \<and>
   replay 0 (afterOpening (getTransactionHistory
     (performAll [Withdraw (Fin 300), Withdraw (Fin 200), Deposit (Fin 25)]
       (Current (CurrentAccount_new ''C1'' ''Bob'' 0 (Fin 500) (Fin 25)))))) = Fin (- 300)"
proof -
  let ?s = "performAll [Withdraw (Fin 950), Withdraw (Fin 800), ApplyInterest]
     (Savings (SavingsAccount_new ''S1'' ''Alice'' (Fin 1000) intRate_default (Fin 100)))"
  let ?c = "performAll [Withdraw (Fin 300), Withdraw (Fin 200), Deposit (Fin 25)]
     (Current (CurrentAccount_new ''C1'' ''Bob'' 0 (Fin 500) (Fin 25)))"
  note s = balance_is_ledger_total
    [of "[Withdraw (Fin 950), Withdraw (Fin 800), ApplyInterest]" "''S1''" "''Alice''"
      "Fin 1000" intRate_default "Fin 100" "Fin 500" "Fin 25", THEN conjunct1]
  note c = balance_is_ledger_total
    [of "[Withdraw (Fin 300), Withdraw (Fin 200), Deposit (Fin 25)]" "''C1''" "''Bob''"
      0 intRate_default "Fin 100" "Fin 500" "Fin 25", THEN conjunct2]
  have bs: "getBalance ?s = Fin (7060330665825621 / 2 ^ 45)"
    unfolding scenario_savings by simp
  have bc: "getBalance ?c = Fin (- 300)"
    unfolding scenario_current by simp
  from s bs have rs: "replay (Fin 1000) (afterOpening (getTransactionHistory ?s)) =
      Fin (7060330665825621 / 2 ^ 45)"
    by (rule subst)
  from c bc have rc: "replay 0 (afterOpening (getTransactionHistory ?c)) = Fin (- 300)"
    by (rule subst)
  from bs rs bc rc show ?thesis by blast
qed

text \<open>
  The claim as the specification words it adds the signed amounts of all the
  transactions to the initial balance. First, it counts the initial deposit as well as
  the initial balance: a savings account opened through the menu with 1000 has the
  balance 1000, and the initial balance plus the signed amounts is 2000, in exact
  arithmetic and in doubles. Second, the exact sum is not what the code computes: an
  account opened with 0 that receives 1e16 and then 1 has the balance 1e16, and the
  exact sum is 1e16 + 1.
\<close>

theorem balance_is_ledger_total_counterexample:
  "accounts (serveAll [CreateSavings ''S1'' ''Alice'' (rnd 1000)] (Bank_new ''ABC Bank'')) =
     [Savings \<lparr>accountNumber = ''S1'', holderName = ''Alice'', balance = Fin 1000,
        transactionHistory =
          [\<lparr>type = ''Initial Deposit'', amount = Fin 1000, balanceAfter = Fin 1000\<rparr>],
        interestRate = intRate_default, minimumBalance = minBalance_default\<rparr>] \<and>
   val (Fin 1000) \<noteq> val (Fin 1000) +
     signedSum [\<lparr>type = ''Initial Deposit'', amount = Fin 1000, balanceAfter = Fin 1000\<rparr>] \<and>
   Fin 1000 \<noteq> replay (Fin 1000)
     [\<lparr>type = ''Initial Deposit'', amount = Fin 1000, balanceAfter = Fin 1000\<rparr>] \<and>
   accounts (serveAll [CreateCurrent ''C1'' ''Bob'' 0, DepositMoney ''C1'' (rnd (10 ^ 16)),
       DepositMoney ''C1'' (rnd 1)] (Bank_new ''ABC Bank'')) =
     [Current \<lparr>accountNumber = ''C1'', holderName = ''Bob'', balance = Fin (10 ^ 16),
        transactionHistory =
          [\<lparr>type = ''Deposit'', amount = Fin (10 ^ 16), balanceAfter = Fin (10 ^ 16)\<rparr>,
           \<lparr>type = ''Deposit'', amount = Fin 1, balanceAfter = Fin (10 ^ 16)\<rparr>],
        overdraftLimit = overdraftLim_default, overdraftFee = overdraftF_default\<rparr>] \<and>
   val (Fin (10 ^ 16)) \<noteq> val 0 +
     signedSum [\<lparr>type = ''Deposit'', amount = Fin (10 ^ 16), balanceAfter = Fin (10 ^ 16)\<rparr>,
                \<lparr>type = ''Deposit'', amount = Fin 1, balanceAfter = Fin (10 ^ 16)\<rparr>]"
proof -
  have lit: "rnd 1000 = Fin 1000" "rnd (10 ^ 16) = Fin (10 ^ 16)" "rnd 1 = Fin 1"
    by (simp_all add: rnd_eval)
  have sums: "Fin 0 + Fin (10 ^ 16) = Fin (10 ^ 16)" "Fin (10 ^ 16) + Fin 1 = Fin (10 ^ 16)"
    "Fin 1000 + Fin 1000 = Fin 2000"
    by (simp_all add: rnd_eval)
  have first: "accounts (serveAll [CreateSavings ''S1'' ''Alice'' (rnd 1000)] (Bank_new ''ABC Bank'')) =
     [Savings \<lparr>accountNumber = ''S1'', holderName = ''Alice'', balance = Fin 1000,
        transactionHistory =
          [\<lparr>type = ''Initial Deposit'', amount = Fin 1000, balanceAfter = Fin 1000\<rparr>],
        interestRate = intRate_default, minimumBalance = minBalance_default\<rparr>]"
    unfolding lit
    by (simp add: serveAll_def createSavingsAccount_def Bank_new_def SavingsAccount_new_eq
          zero_double_def)
  have second: "accounts (serveAll [CreateCurrent ''C1'' ''Bob'' 0,
       DepositMoney ''C1'' (rnd (10 ^ 16)), DepositMoney ''C1'' (rnd 1)] (Bank_new ''ABC Bank'')) =
     [Current \<lparr>accountNumber = ''C1'', holderName = ''Bob'', balance = Fin (10 ^ 16),
        transactionHistory =
          [\<lparr>type = ''Deposit'', amount = Fin (10 ^ 16), balanceAfter = Fin (10 ^ 16)\<rparr>,
           \<lparr>type = ''Deposit'', amount = Fin 1, balanceAfter = Fin (10 ^ 16)\<rparr>],
        overdraftLimit = overdraftLim_default, overdraftFee = overdraftF_default\<rparr>]"
    unfolding lit
    using sums
    by (simp add: serveAll_def createCurrentAccount_def Bank_new_def CurrentAccount_new_eq
          findAccount_def CurrentAccount_deposit_def addTransaction_def Transaction_new_def
          Let_def zero_double_def)
  have exact1: "val (Fin 1000) \<noteq> val (Fin 1000) +
      signedSum [\<lparr>type = ''Initial Deposit'', amount = Fin 1000, balanceAfter = Fin 1000\<rparr>]"
    by (simp add: signedSum_simps signedAmount_def)
  have dbl1: "Fin 1000 \<noteq> replay (Fin 1000)
      [\<lparr>type = ''Initial Deposit'', amount = Fin 1000, balanceAfter = Fin 1000\<rparr>]"
    using sums by (simp add: replay_simps applySigned_def)
  have exact2: "val (Fin (10 ^ 16)) \<noteq> val 0 +
      signedSum [\<lparr>type = ''Deposit'', amount = Fin (10 ^ 16), balanceAfter = Fin (10 ^ 16)\<rparr>,
                 \<lparr>type = ''Deposit'', amount = Fin 1, balanceAfter = Fin (10 ^ 16)\<rparr>]"
    by (simp add: signedSum_simps signedAmount_def zero_double_def)
  from first exact1 dbl1 second exact2 show ?thesis by blast
qed

section \<open>What the transactions hold\<close>

lemma perform_recorded:
  assumes rec: "balancesRecorded B (getTransactionHistory acc)"
    and led: "getBalance acc = replay B (afterOpening (getTransactionHistory acc))"
  shows "balancesRecorded B (getTransactionHistory (perform op acc))"
proof -
  let ?ts = "getTransactionHistory acc"
  obtain new where h: "getTransactionHistory (perform op acc) = ?ts @ new"
    and o: "\<forall>t \<in> set new. type t \<noteq> ''Initial Deposit''"
    and r: "\<forall>k < length new. balanceAfter (new ! k) = replay (getBalance acc) (take (Suc k) new)"
    using perform_effect [of op acc] by blast
  have "balanceAfter ((?ts @ new) ! i) = replay B (afterOpening (take (Suc i) (?ts @ new)))"
    if i: "i < length (?ts @ new)" for i
  proof (cases "i < length ?ts")
    case True
    then show ?thesis
      using rec by (simp add: balancesRecorded_def nth_append)
  next
    case False
    define k where "k = i - length ?ts"
    have k: "k < length new" and ik: "i = length ?ts + k"
      using i False by (simp_all add: k_def)
    have "\<forall>t \<in> set (take (Suc k) new). type t \<noteq> ''Initial Deposit''"
      using o by (meson in_set_takeD)
    then have ao: "afterOpening (take (Suc k) new) = take (Suc k) new"
      by (rule afterOpening_id)
    have tk: "take (Suc i) (?ts @ new) = ?ts @ take (Suc k) new"
      by (simp add: ik)
    have nth: "(?ts @ new) ! i = new ! k"
      by (simp add: ik nth_append)
    have "balanceAfter ((?ts @ new) ! i) = replay (getBalance acc) (take (Suc k) new)"
      using r k by (simp only: nth)
    also have "\<dots> = replay B (afterOpening (?ts @ take (Suc k) new))"
      by (simp add: led afterOpening_simps replay_simps ao)
    finally show ?thesis
      by (simp only: tk)
  qed
  then show ?thesis
    by (simp add: balancesRecorded_def h)
qed

lemma performAll_recorded:
  "balancesRecorded B (getTransactionHistory acc) \<Longrightarrow>
   getBalance acc = replay B (afterOpening (getTransactionHistory acc)) \<Longrightarrow>
   balancesRecorded B (getTransactionHistory (performAll ops acc))"
  unfolding performAll_def
  by (induction ops arbitrary: acc) (simp_all add: perform_recorded perform_ledger)

lemma balancesRecorded_last:
  assumes "balancesRecorded B ts" and "ts \<noteq> []"
  shows "balanceAfter (last ts) = replay B (afterOpening ts)"
proof -
  from \<open>ts \<noteq> []\<close> have "length ts - 1 < length ts" by simp
  with assms(1) have "balanceAfter (ts ! (length ts - 1)) =
      replay B (afterOpening (take (Suc (length ts - 1)) ts))"
    unfolding balancesRecorded_def by simp
  with \<open>ts \<noteq> []\<close> show ?thesis by (simp add: last_conv_nth)
qed

lemma opened_recorded:
  "balancesRecorded B (getTransactionHistory (Savings (SavingsAccount_new n h B r m)))"
  "balancesRecorded B (getTransactionHistory (Current (CurrentAccount_new n h B l f)))"
  by (simp_all add: balancesRecorded_def SavingsAccount_new_sel CurrentAccount_new_sel
        afterOpening_simps replay_simps)

text \<open>
  Whatever operation comes next, it leaves the recorded transactions as they are, and the
  last transaction it appends holds the balance it leaves.
\<close>

lemma perform_appends:
  "\<exists>new. getTransactionHistory (perform op acc) = getTransactionHistory acc @ new \<and>
         (new \<noteq> [] \<longrightarrow> balanceAfter (last new) = getBalance (perform op acc))"
proof -
  obtain new where h: "getTransactionHistory (perform op acc) = getTransactionHistory acc @ new"
    and b: "getBalance (perform op acc) = replay (getBalance acc) new"
    and r: "\<forall>k < length new. balanceAfter (new ! k) = replay (getBalance acc) (take (Suc k) new)"
    using perform_effect [of op acc] by blast
  have "balanceAfter (last new) = getBalance (perform op acc)" if "new \<noteq> []"
  proof -
    from that have "length new - 1 < length new" by simp
    with r have "balanceAfter (new ! (length new - 1)) =
        replay (getBalance acc) (take (Suc (length new - 1)) new)"
      by blast
    with that show ?thesis by (simp add: last_conv_nth b)
  qed
  with h show ?thesis by blast
qed

text \<open>Amounts that are not negative.\<close>

lemma positive_finite_nonneg: "\<not> amt \<le> (0::double) \<Longrightarrow> isFinite amt \<Longrightarrow> 0 \<le> amt"
  by (cases amt) (simp_all add: zero_double_def)

lemma less_imp_le_double: "(x::double) < y \<Longrightarrow> x \<le> y"
  by (cases x; cases y) simp_all

lemma nonneg_minus_finite: "(0::double) \<le> b \<Longrightarrow> isFinite amt \<Longrightarrow> b - amt \<noteq> NaN"
  by (cases b; cases amt) (simp_all add: zero_double_def minus_double_def)

lemma nonneg_not_less: "(0::double) \<le> m \<Longrightarrow> x \<noteq> NaN \<Longrightarrow> \<not> x < m \<Longrightarrow> 0 \<le> x"
  by (cases m; cases x) (auto simp add: zero_double_def)

lemma nonNegativeAmounts_snoc:
  "nonNegativeAmounts (ts @ [t]) \<longleftrightarrow> nonNegativeAmounts ts \<and> 0 \<le> amount t"
  by (auto simp add: nonNegativeAmounts_def)

lemma perform_soundSavings:
  assumes "soundSavings acc" and "case amountOf op of Some amt \<Rightarrow> isFinite amt | None \<Rightarrow> True"
  shows "soundSavings (perform op acc)"
proof (cases acc)
  case (Current c)
  with assms(1) show ?thesis by (simp add: soundSavings_def)
next
  case (Savings s)
  with assms(1) have b: "0 \<le> balance s" and r: "0 < interestRate s" "isFinite (interestRate s)"
    and m: "0 \<le> minimumBalance s" and ts: "nonNegativeAmounts (transactionHistory s)"
    by (simp_all add: soundSavings_def)
  show ?thesis
  proof (cases op)
    case (Deposit amt)
    with assms(2) have fin: "isFinite amt" by simp
    show ?thesis
    proof (cases "amt \<le> 0")
      case True
      then show ?thesis
        using b r m ts by (simp add: Savings Deposit operation_defs soundSavings_def)
    next
      case False
      then have a: "0 \<le> amt" using fin by (rule positive_finite_nonneg)
      then show ?thesis
        using False b r m ts nonneg_add [OF b a]
        by (simp add: Savings Deposit operation_defs Let_def soundSavings_def
              nonNegativeAmounts_snoc)
    qed
  next
    case (Withdraw amt)
    with assms(2) have fin: "isFinite amt" by simp
    show ?thesis
    proof (cases "amt \<le> 0 \<or> balance s - amt < minimumBalance s")
      case True
      then show ?thesis
        using b r m ts by (auto simp add: Savings Withdraw operation_defs soundSavings_def)
    next
      case False
      then have a: "0 \<le> amt" using fin by (simp add: positive_finite_nonneg)
      have "0 \<le> balance s - amt"
        using m nonneg_minus_finite [OF b fin] False by (simp add: nonneg_not_less)
      then show ?thesis
        using False a r m ts
        by (simp add: Savings Withdraw operation_defs Let_def soundSavings_def
              nonNegativeAmounts_snoc)
    qed
  next
    case ApplyInterest
    have i: "0 \<le> balance s * interestRate s / rnd 12"
      using b r by (simp add: nonneg_mult_finite nonneg_div_12)
    then show ?thesis
      using r m ts nonneg_add [OF b i]
      by (simp add: Savings ApplyInterest operation_defs Let_def soundSavings_def
            nonNegativeAmounts_snoc)
  qed
qed

lemma perform_soundCurrent:
  assumes "soundCurrent acc" and "case amountOf op of Some amt \<Rightarrow> isFinite amt | None \<Rightarrow> True"
  shows "soundCurrent (perform op acc)"
proof (cases acc)
  case (Savings s)
  with assms(1) show ?thesis by (simp add: soundCurrent_def)
next
  case (Current c)
  with assms(1) have f: "0 \<le> overdraftFee c" and ts: "nonNegativeAmounts (transactionHistory c)"
    by (simp_all add: soundCurrent_def)
  show ?thesis
  proof (cases op)
    case (Deposit amt)
    with assms(2) have fin: "isFinite amt" by simp
    show ?thesis
      using f ts positive_finite_nonneg [OF _ fin]
      by (simp add: Current Deposit operation_defs Let_def soundCurrent_def
            nonNegativeAmounts_snoc)
  next
    case (Withdraw amt)
    with assms(2) have fin: "isFinite amt" by simp
    show ?thesis
      using f ts positive_finite_nonneg [OF _ fin]
      by (auto simp add: Current Withdraw operation_defs Let_def soundCurrent_def
            nonNegativeAmounts_snoc nonNegativeAmounts_def)
  next
    case ApplyInterest
    show ?thesis
      using f ts by (simp add: Current ApplyInterest soundCurrent_def)
  qed
qed

lemma performAll_soundSavings:
  "soundSavings acc \<Longrightarrow> finiteAmounts ops \<Longrightarrow> soundSavings (performAll ops acc)"
  unfolding performAll_def finiteAmounts_def
  by (induction ops arbitrary: acc) (simp_all add: perform_soundSavings)

lemma performAll_soundCurrent:
  "soundCurrent acc \<Longrightarrow> finiteAmounts ops \<Longrightarrow> soundCurrent (performAll ops acc)"
  unfolding performAll_def finiteAmounts_def
  by (induction ops arbitrary: acc) (simp_all add: perform_soundCurrent)

lemma sound_nonNegative:
  "soundSavings acc \<or> soundCurrent acc \<Longrightarrow> nonNegativeAmounts (getTransactionHistory acc)"
  by (cases acc) (simp_all add: soundSavings_def soundCurrent_def)

text \<open>The default arguments of the bank meet the conditions.\<close>

lemma defaults_sound:
  "0 < intRate_default" "isFinite intRate_default" "0 \<le> minBalance_default"
  "0 \<le> overdraftF_default"
  by (simp_all add: default_values zero_double_def)

lemma opened_sound:
  "0 \<le> B \<Longrightarrow> 0 < r \<Longrightarrow> isFinite r \<Longrightarrow> 0 \<le> m \<Longrightarrow>
     soundSavings (Savings (SavingsAccount_new n h B r m))"
  "0 \<le> f \<Longrightarrow> soundCurrent (Current (CurrentAccount_new n h B l f))"
  using less_imp_le_double [of 0 B]
  by (auto simp add: soundSavings_def soundCurrent_def nonNegativeAmounts_def
        SavingsAccount_new_sel CurrentAccount_new_sel)

text \<open>
  Claim C8, as the code has it. In every state an account reaches, every transaction of
  its history holds as \<^verbatim>\<open>balanceAfter\<close> the balance the account had right after the
  event that recorded it: \<open>balancesRecorded\<close> says so of every position of the history,
  the last transaction holds the present balance, and whatever operation comes next
  leaves the recorded transactions as they are and ends with a transaction that holds
  the balance it leaves. All amounts are non-negative in a current account whose
  overdraft fee is not negative, and in a savings account whose initial balance and
  minimum balance are not negative and whose interest rate is positive and finite, when
  the amounts passed to \<^verbatim>\<open>deposit\<close> and \<^verbatim>\<open>withdraw\<close> are finite, as the amounts read by
  the menu are.
\<close>

theorem transactions_hold_balances:
  "(let acc = performAll ops (Savings (SavingsAccount_new n h B r m));
        ts = getTransactionHistory acc
    in balancesRecorded B ts \<and>
       (ts \<noteq> [] \<longrightarrow> balanceAfter (last ts) = getBalance acc) \<and>
       (\<forall>op. \<exists>new. getTransactionHistory (perform op acc) = ts @ new \<and>
          (new \<noteq> [] \<longrightarrow> balanceAfter (last new) = getBalance (perform op acc))) \<and>
       (0 \<le> B \<and> 0 < r \<and> isFinite r \<and> 0 \<le> m \<and> finiteAmounts ops \<longrightarrow>
          nonNegativeAmounts ts)) \<and>
   (let acc = performAll ops (Current (CurrentAccount_new n h B l f));
        ts = getTransactionHistory acc
    in balancesRecorded B ts \<and>
       (ts \<noteq> [] \<longrightarrow> balanceAfter (last ts) = getBalance acc) \<and>
       (\<forall>op. \<exists>new. getTransactionHistory (perform op acc) = ts @ new \<and>
          (new \<noteq> [] \<longrightarrow> balanceAfter (last new) = getBalance (perform op acc))) \<and>
       (0 \<le> f \<and> finiteAmounts ops \<longrightarrow> nonNegativeAmounts ts))"
proof -
  let ?s = "Savings (SavingsAccount_new n h B r m)"
  let ?c = "Current (CurrentAccount_new n h B l f)"
  note rs = performAll_recorded [OF opened_recorded(1) opened_ledger(1)]
  note rc = performAll_recorded [OF opened_recorded(2) opened_ledger(2)]
  note ls = performAll_ledger [OF opened_ledger(1)]
  note lc = performAll_ledger [OF opened_ledger(2)]
  have lasts: "balanceAfter (last (getTransactionHistory (performAll ops ?s))) =
      getBalance (performAll ops ?s)"
    if "getTransactionHistory (performAll ops ?s) \<noteq> []"
    using balancesRecorded_last [OF rs that] ls by simp
  have lastc: "balanceAfter (last (getTransactionHistory (performAll ops ?c))) =
      getBalance (performAll ops ?c)"
    if "getTransactionHistory (performAll ops ?c) \<noteq> []"
    using balancesRecorded_last [OF rc that] lc by simp
  have nns: "nonNegativeAmounts (getTransactionHistory (performAll ops ?s))"
    if "0 \<le> B \<and> 0 < r \<and> isFinite r \<and> 0 \<le> m \<and> finiteAmounts ops"
  proof -
    from that have "soundSavings ?s" by (simp add: opened_sound)
    with that have "soundSavings (performAll ops ?s)" by (simp add: performAll_soundSavings)
    then show ?thesis by (simp add: sound_nonNegative)
  qed
  have nnc: "nonNegativeAmounts (getTransactionHistory (performAll ops ?c))"
    if "0 \<le> f \<and> finiteAmounts ops"
  proof -
    from that have "soundCurrent ?c" by (simp add: opened_sound)
    with that have "soundCurrent (performAll ops ?c)" by (simp add: performAll_soundCurrent)
    then show ?thesis by (simp add: sound_nonNegative)
  qed
  show ?thesis
    unfolding Let_def
    using rs rc lasts lastc nns nnc perform_appends
    by simp
qed

theorem transactions_hold_balances_witness:
  "getTransactionHistory (performAll [Withdraw (Fin 950), Withdraw (Fin 800), ApplyInterest]
     (Savings (SavingsAccount_new ''S1'' ''Alice'' (Fin 1000) intRate_default (Fin 100)))) =
     [\<lparr>type = ''Initial Deposit'', amount = Fin 1000, balanceAfter = Fin 1000\<rparr>,
      \<lparr>type = ''Withdrawal'', amount = Fin 800, balanceAfter = Fin 200\<rparr>,
      \<lparr>type = ''Interest Credit'', amount = Fin (6004799503160661 / 2 ^ 53),
        balanceAfter = Fin (7060330665825621 / 2 ^ 45)\<rparr>] \<and>
   balancesRecorded (Fin 1000)
     [\<lparr>type = ''Initial Deposit'', amount = Fin 1000, balanceAfter = Fin 1000\<rparr>,
      \<lparr>type = ''Withdrawal'', amount = Fin 800, balanceAfter = Fin 200\<rparr>,
      \<lparr>type = ''Interest Credit'', amount = Fin (6004799503160661 / 2 ^ 53),
        balanceAfter = Fin (7060330665825621 / 2 ^ 45)\<rparr>] \<and>
   nonNegativeAmounts
     [\<lparr>type = ''Initial Deposit'', amount = Fin 1000, balanceAfter = Fin 1000\<rparr>,
      \<lparr>type = ''Withdrawal'', amount = Fin 800, balanceAfter = Fin 200\<rparr>,
      \<lparr>type = ''Interest Credit'', amount = Fin (6004799503160661 / 2 ^ 53),
        balanceAfter = Fin (7060330665825621 / 2 ^ 45)\<rparr>] \<and>
   getBalance (performAll [Withdraw (Fin 950), Withdraw (Fin 800), ApplyInterest]
     (Savings (SavingsAccount_new ''S1'' ''Alice'' (Fin 1000) intRate_default (Fin 100)))) =
     Fin (7060330665825621 / 2 ^ 45) \<and>
   getTransactionHistory (performAll [Withdraw (Fin 300), Withdraw (Fin 200), Deposit (Fin 25)]
     (Current (CurrentAccount_new ''C1'' ''Bob'' 0 (Fin 500) (Fin 25)))) =
     [\<lparr>type = ''Withdrawal'', amount = Fin 300, balanceAfter = Fin (- 300)\<rparr>,
      \<lparr>type = ''Overdraft Fee'', amount = Fin 25, balanceAfter = Fin (- 325)\<rparr>,
      \<lparr>type = ''Deposit'', amount = Fin 25, balanceAfter = Fin (- 300)\<rparr>] \<and>
   balancesRecorded 0
     [\<lparr>type = ''Withdrawal'', amount = Fin 300, balanceAfter = Fin (- 300)\<rparr>,
      \<lparr>type = ''Overdraft Fee'', amount = Fin 25, balanceAfter = Fin (- 325)\<rparr>,
      \<lparr>type = ''Deposit'', amount = Fin 25, balanceAfter = Fin (- 300)\<rparr>] \<and>
   nonNegativeAmounts
     [\<lparr>type = ''Withdrawal'', amount = Fin 300, balanceAfter = Fin (- 300)\<rparr>,
      \<lparr>type = ''Overdraft Fee'', amount = Fin 25, balanceAfter = Fin (- 325)\<rparr>,
      \<lparr>type = ''Deposit'', amount = Fin 25, balanceAfter = Fin (- 300)\<rparr>]"
proof -
  have hs: "getTransactionHistory (performAll [Withdraw (Fin 950), Withdraw (Fin 800), ApplyInterest]
     (Savings (SavingsAccount_new ''S1'' ''Alice'' (Fin 1000) intRate_default (Fin 100)))) =
     [\<lparr>type = ''Initial Deposit'', amount = Fin 1000, balanceAfter = Fin 1000\<rparr>,
      \<lparr>type = ''Withdrawal'', amount = Fin 800, balanceAfter = Fin 200\<rparr>,
      \<lparr>type = ''Interest Credit'', amount = Fin (6004799503160661 / 2 ^ 53),
        balanceAfter = Fin (7060330665825621 / 2 ^ 45)\<rparr>]"
    and bs: "getBalance (performAll [Withdraw (Fin 950), Withdraw (Fin 800), ApplyInterest]
     (Savings (SavingsAccount_new ''S1'' ''Alice'' (Fin 1000) intRate_default (Fin 100)))) =
     Fin (7060330665825621 / 2 ^ 45)"
    unfolding scenario_savings by simp_all
  have hc: "getTransactionHistory (performAll [Withdraw (Fin 300), Withdraw (Fin 200), Deposit (Fin 25)]
     (Current (CurrentAccount_new ''C1'' ''Bob'' 0 (Fin 500) (Fin 25)))) =
     [\<lparr>type = ''Withdrawal'', amount = Fin 300, balanceAfter = Fin (- 300)\<rparr>,
      \<lparr>type = ''Overdraft Fee'', amount = Fin 25, balanceAfter = Fin (- 325)\<rparr>,
      \<lparr>type = ''Deposit'', amount = Fin 25, balanceAfter = Fin (- 300)\<rparr>]"
    unfolding scenario_current by simp
  have pre: "(0::double) \<le> Fin 1000 \<and> 0 < intRate_default \<and> isFinite intRate_default \<and>
      (0::double) \<le> Fin 100 \<and>
      finiteAmounts [Withdraw (Fin 950), Withdraw (Fin 800), ApplyInterest]"
    by (simp add: zero_double_def default_values finiteAmounts_def)
  have fee: "(0::double) \<le> Fin 25 \<and>
      finiteAmounts [Withdraw (Fin 300), Withdraw (Fin 200), Deposit (Fin 25)]"
    by (simp add: zero_double_def finiteAmounts_def)
  note s = transactions_hold_balances
    [of "[Withdraw (Fin 950), Withdraw (Fin 800), ApplyInterest]" "''S1''" "''Alice''"
      "Fin 1000" intRate_default "Fin 100" "Fin 500" "Fin 25",
     unfolded Let_def hs, THEN conjunct1]
  note c = transactions_hold_balances
    [of "[Withdraw (Fin 300), Withdraw (Fin 200), Deposit (Fin 25)]" "''C1''" "''Bob''"
      0 intRate_default "Fin 100" "Fin 500" "Fin 25",
     unfolded Let_def hc, THEN conjunct2]
  from s pre c fee hs bs hc show ?thesis
    by blast
qed

text \<open>
  The claim as the specification words it has every amount non-negative. A savings
  account opened through the menu with the initial balance \<open>-1200\<close> gets, in the interest
  run, an \<^verbatim>\<open>"Interest Credit"\<close> of \<open>-4\<close>.
\<close>

theorem transactions_hold_balances_counterexample:
  "accounts (serveAll [CreateSavings ''S2'' ''Dan'' (rnd (- 1200)), ApplyInterestToSavings]
     (Bank_new ''ABC Bank'')) =
     [Savings \<lparr>accountNumber = ''S2'', holderName = ''Dan'', balance = Fin (- 1204),
        transactionHistory =
          [\<lparr>type = ''Interest Credit'', amount = Fin (- 4), balanceAfter = Fin (- 1204)\<rparr>],
        interestRate = intRate_default, minimumBalance = minBalance_default\<rparr>] \<and>
   amount \<lparr>type = ''Interest Credit'', amount = Fin (- 4), balanceAfter = Fin (- 1204)\<rparr> < 0 \<and>
   \<not> nonNegativeAmounts
     [\<lparr>type = ''Interest Credit'', amount = Fin (- 4), balanceAfter = Fin (- 1204)\<rparr>]"
proof -
  have lit: "rnd (- 1200) = Fin (- 1200)"
    by (simp add: rnd_eval)
  have i: "Fin (- 1200) * intRate_default / rnd 12 = Fin (- 4)"
    by (simp add: default_values rnd_eval)
  have b: "Fin (- 1200) + Fin (- 4) = Fin (- 1204)"
    by (simp add: rnd_eval)
  have bank: "accounts (serveAll [CreateSavings ''S2'' ''Dan'' (rnd (- 1200)), ApplyInterestToSavings]
     (Bank_new ''ABC Bank'')) =
     [Savings \<lparr>accountNumber = ''S2'', holderName = ''Dan'', balance = Fin (- 1204),
        transactionHistory =
          [\<lparr>type = ''Interest Credit'', amount = Fin (- 4), balanceAfter = Fin (- 1204)\<rparr>],
        interestRate = intRate_default, minimumBalance = minBalance_default\<rparr>]"
    unfolding lit
    using i b
    by (simp add: serveAll_def createSavingsAccount_def Bank_new_def
          applyInterestToSavingsAccounts_def SavingsAccount_applyInterest_def addTransaction_def
          Transaction_new_def Let_def SavingsAccount_new_eq zero_double_def)
  have neg: "amount \<lparr>type = ''Interest Credit'', amount = Fin (- 4), balanceAfter = Fin (- 1204)\<rparr> < 0"
    "\<not> nonNegativeAmounts
      [\<lparr>type = ''Interest Credit'', amount = Fin (- 4), balanceAfter = Fin (- 1204)\<rparr>]"
    by (simp_all add: nonNegativeAmounts_def zero_double_def)
  from bank neg show ?thesis by blast
qed

section \<open>The accounts of a bank are opened accounts\<close>

text \<open>
  The theorems on sequences of operations speak of the accounts of a bank: whatever
  requests the menu has served, every account of the bank was opened by a creation
  method and has since been changed by operations only.
\<close>

lemma findAccount_in_range: "findAccount accNum bank = Some i \<Longrightarrow> i < length (accounts bank)"
  using find_if_le [of "\<lambda>acc. getAccountNumber acc = accNum" "accounts bank"]
  by (auto simp add: findAccount_def Let_def split: if_splits)

lemma applyInterest_each_perform:
  "fst (applyInterest_each xs) = map (perform ApplyInterest) xs"
proof -
  have "(\<lambda>acc. case acc of Savings s \<Rightarrow> Savings (fst (SavingsAccount_applyInterest s))
                         | Current c \<Rightarrow> Current c) = perform ApplyInterest"
  proof
    fix acc
    show "(case acc of Savings s \<Rightarrow> Savings (fst (SavingsAccount_applyInterest s))
                     | Current c \<Rightarrow> Current c) = perform ApplyInterest acc"
      by (cases acc) simp_all
  qed
  then show ?thesis
    by (simp add: applyInterest_each_accounts)
qed

lemma serve_bankAccount:
  assumes all: "\<forall>acc \<in> set (accounts bank). bankAccount acc"
  shows "\<forall>acc \<in> set (accounts (serve req bank)). bankAccount acc"
proof (cases req)
  case (CreateSavings accNum holder amt)
  then show ?thesis
    using all bankAccount.openedSavings [of accNum holder amt]
    by (simp add: createSavingsAccount_def)
next
  case (CreateCurrent accNum holder amt)
  then show ?thesis
    using all bankAccount.openedCurrent [of accNum holder amt]
    by (simp add: createCurrentAccount_def)
next
  case (DepositMoney accNum amt)
  show ?thesis
  proof (cases "findAccount accNum bank")
    case None
    then show ?thesis using all by (simp add: DepositMoney)
  next
    case (Some i)
    then have "i < length (accounts bank)" by (rule findAccount_in_range)
    then have "bankAccount (accounts bank ! i)"
      using all by simp
    then have "bankAccount (perform (Deposit amt) (accounts bank ! i))"
      by (rule bankAccount.changed)
    then show ?thesis
      using all set_update_subset_insert [of "accounts bank" i]
      by (auto simp add: DepositMoney Some)
  qed
next
  case (WithdrawMoney accNum amt)
  show ?thesis
  proof (cases "findAccount accNum bank")
    case None
    then show ?thesis using all by (simp add: WithdrawMoney)
  next
    case (Some i)
    then have "i < length (accounts bank)" by (rule findAccount_in_range)
    then have "bankAccount (accounts bank ! i)"
      using all by simp
    then have "bankAccount (perform (Withdraw amt) (accounts bank ! i))"
      by (rule bankAccount.changed)
    then show ?thesis
      using all set_update_subset_insert [of "accounts bank" i]
      by (auto simp add: WithdrawMoney Some)
  qed
next
  case ApplyInterestToSavings
  have "accounts (fst (applyInterestToSavingsAccounts bank)) =
      map (perform ApplyInterest) (accounts bank)"
    by (simp add: applyInterestToSavingsAccounts_def split_def Let_def applyInterest_each_perform)
  moreover have "\<forall>acc \<in> set (accounts bank). bankAccount (perform ApplyInterest acc)"
    using all bankAccount.changed by blast
  ultimately show ?thesis
    by (simp add: ApplyInterestToSavings)
qed

lemma serveAll_bankAccount:
  "\<forall>acc \<in> set (accounts (serveAll reqs (Bank_new name))). bankAccount acc"
proof (induction reqs rule: rev_induct)
  case Nil
  show ?case by (simp add: serveAll_def Bank_new_def)
next
  case (snoc req reqs)
  have "serveAll (reqs @ [req]) (Bank_new name) = serve req (serveAll reqs (Bank_new name))"
    by (simp add: serveAll_def)
  with serve_bankAccount [OF snoc.IH] show ?case by simp
qed

text \<open>An account of a bank is the result of operations on a newly created account.\<close>

lemma bankAccount_performAll:
  "bankAccount acc \<Longrightarrow>
   \<exists>ops accNum holder B.
     acc = performAll ops (Savings (SavingsAccount_new accNum holder B intRate_default minBalance_default)) \<or>
     acc = performAll ops (Current (CurrentAccount_new accNum holder B overdraftLim_default overdraftF_default))"
proof (induction rule: bankAccount.induct)
  case (openedSavings accNum holder B)
  have "Savings (SavingsAccount_new accNum holder B intRate_default minBalance_default) =
      performAll [] (Savings (SavingsAccount_new accNum holder B intRate_default minBalance_default))"
    by (simp add: performAll_def)
  then show ?case by blast
next
  case (openedCurrent accNum holder B)
  have "Current (CurrentAccount_new accNum holder B overdraftLim_default overdraftF_default) =
      performAll [] (Current (CurrentAccount_new accNum holder B overdraftLim_default overdraftF_default))"
    by (simp add: performAll_def)
  then show ?case by blast
next
  case (changed acc op)
  have step: "perform op (performAll ops start) = performAll (ops @ [op]) start" for ops start
    by (simp add: performAll_def)
  from changed.IH obtain ops accNum holder B where
    "acc = performAll ops (Savings (SavingsAccount_new accNum holder B intRate_default minBalance_default)) \<or>
     acc = performAll ops (Current (CurrentAccount_new accNum holder B overdraftLim_default overdraftF_default))"
    by blast
  then have
    "perform op acc = performAll (ops @ [op]) (Savings (SavingsAccount_new accNum holder B intRate_default minBalance_default)) \<or>
     perform op acc = performAll (ops @ [op]) (Current (CurrentAccount_new accNum holder B overdraftLim_default overdraftF_default))"
    using step by auto
  then show ?case by blast
qed

text \<open>
  Hence the ledger facts hold, for some initial balance, of every account of a bank that
  has served any requests.
\<close>

lemma served_accounts_ledger:
  assumes "acc \<in> set (accounts (serveAll reqs (Bank_new name)))"
  shows "\<exists>B. getBalance acc = replay B (afterOpening (getTransactionHistory acc)) \<and>
             balancesRecorded B (getTransactionHistory acc)"
proof -
  from assms have "bankAccount acc"
    using serveAll_bankAccount by blast
  then obtain ops accNum holder B where
    "acc = performAll ops (Savings (SavingsAccount_new accNum holder B intRate_default minBalance_default)) \<or>
     acc = performAll ops (Current (CurrentAccount_new accNum holder B overdraftLim_default overdraftF_default))"
    using bankAccount_performAll by blast
  then have "getBalance acc = replay B (afterOpening (getTransactionHistory acc)) \<and>
      balancesRecorded B (getTransactionHistory acc)"
    using performAll_ledger [OF opened_ledger(1)] performAll_ledger [OF opened_ledger(2)]
      performAll_recorded [OF opened_recorded(1) opened_ledger(1)]
      performAll_recorded [OF opened_recorded(2) opened_ledger(2)]
    by auto
  then show ?thesis by blast
qed

end
